theory Spec2Isabelle
  imports Main "HOL-Library.AList" "HOL-Library.Multiset" "HOL-Library.Sublist"
begin

section \<open>Data model (src/lib/schemas.ts)\<close>

text \<open>
  A reference of the mapping file is \<open>z.union([z.int(), z.string().min(1)])\<close>: a numeric
  ID or a name. JavaScript's \<open>===\<close> between a number and a string is false, and a value
  is falsy when it is the number 0 or the empty string.
\<close>

datatype reference = RInt int | RStr string

fun isInteger :: "reference \<Rightarrow> bool" where
  "isInteger (RInt n) = True"
| "isInteger (RStr s) = False"

fun num_eq :: "int \<Rightarrow> reference \<Rightarrow> bool" where
  "num_eq n (RInt k) = (n = k)"
| "num_eq n (RStr s) = False"

fun str_eq :: "string \<Rightarrow> reference \<Rightarrow> bool" where
  "str_eq s (RStr t) = (s = t)"
| "str_eq s (RInt k) = False"

fun truthy :: "reference option \<Rightarrow> bool" where
  "truthy None = False"
| "truthy (Some (RInt n)) = (n \<noteq> 0)"
| "truthy (Some (RStr s)) = (s \<noteq> [])"

subsection \<open>The Trello board export\<close>

record trello_list =
  list_id :: string
  list_name :: string
  list_closed :: bool

record member =
  mem_id :: string
  mem_fullName :: string
  mem_username :: string

record comment_action =
  act_id :: string
  creator_id :: string
  creator_username :: string
  act_idCard :: string
  act_text :: string
  act_date :: int

datatype action = CommentCard comment_action | OtherAction

record trello_label =
  tl_id :: string
  tl_name :: string
  tl_color :: string
  tl_uses :: int

record attachment =
  att_id :: string
  att_name :: string
  att_url :: string

datatype check_state = Complete | Incomplete

record check_item =
  ci_id :: string
  ci_name :: string
  ci_state :: check_state

record checklist =
  cl_id :: string
  cl_name :: string
  cl_idCard :: string
  cl_checkItems :: "check_item list"

record card =
  card_id :: string
  card_name :: string
  card_url :: string
  card_closed :: bool
  card_desc :: string
  card_idChecklists :: "string list"
  card_idList :: string
  card_idMembers :: "string list"
  card_labels :: "trello_label list"
  card_attachments :: "attachment list"

record board =
  b_lists :: "trello_list list"
  b_members :: "member list"
  b_actions :: "action list"
  b_cards :: "card list"
  b_labels :: "trello_label list"
  b_checklists :: "checklist list"

subsection \<open>The mapping file\<close>

datatype owner_type = Organization | User

datatype owner = OwnerName string | OwnerObj owner_type string

text \<open>
  \<open>labels[]\<close> is a union discriminated by \<open>create\<close>: a lookup rule (\<open>create\<close> false,
  \<open>github\<close> a name or an ID) or a creation rule (\<open>create\<close> true, \<open>github\<close> a name, an
  optional colour).
\<close>

datatype label_rule =
    FetchRule (lr_trello: string) (fetch_github: reference)
  | CreateRule (lr_trello: string) (create_github: string) (create_color: "string option")

fun lr_create :: "label_rule \<Rightarrow> bool" where
  "lr_create (FetchRule t g) = False"
| "lr_create (CreateRule t g c) = True"

record user_rule =
  ur_trello :: string
  ur_github :: string

record list_rule =
  m_list :: string
  m_status :: "reference option"
  m_create :: bool
  m_label :: "reference option"
  m_milestone :: "reference option"

record map_format =
  map_owner :: owner
  map_repo :: string
  map_project :: "int option"
  map_labels :: "label_rule list"
  map_users :: "user_rule list"
  map_lists :: "list_rule list"
  map_skip_lists :: "string list"

subsection \<open>What the target returns\<close>

record gh_label =
  ghl_id :: int
  ghl_name :: string

record gh_milestone =
  ms_id :: int
  ms_number :: int
  ms_title :: string

record status_option =
  opt_id :: string
  opt_name :: string
  opt_color :: string

record project_info =
  projectId :: string
  projectName :: string
  statusFieldId :: string
  statusFieldOptions :: "status_option list"

section \<open>Label resolution (src/index.ts, lines 399-430)\<close>

text \<open>
  The type \<open>Label\<close> of \<open>./lib/label\<close>, as the pushes of \<open>index.ts\<close> build it: a union
  tagged by \<open>type\<close>.
\<close>

datatype label =
    Skipped trello_label
  | ToCreate trello_label string "string option"
  | Mapped trello_label gh_label
  | Missing trello_label reference
  | ListMapped gh_label trello_list
  | MissingList reference trello_list

text \<open>
  The predicate of \<open>githubLabels.data.find\<close>:
  \<open>(Number.isInteger(ref) && ghLabel.id === ref) || ghLabel.name === ref\<close>.
\<close>

definition label_matches :: "reference \<Rightarrow> gh_label \<Rightarrow> bool" where
  "label_matches r g = ((isInteger r \<and> num_eq (ghl_id g) r) \<or> str_eq (ghl_name g) r)"

text \<open>One iteration of \<open>for (const trelloLabel of trello.labels)\<close>: the value pushed.\<close>

definition resolve_label :: "map_format \<Rightarrow> gh_label list \<Rightarrow> trello_label \<Rightarrow> label" where
  "resolve_label m githubLabels trelloLabel =
     (case find (\<lambda>labelMap. lr_trello labelMap = tl_name trelloLabel) (map_labels m) of
        None \<Rightarrow> Skipped trelloLabel
      | Some mapped \<Rightarrow>
          (case mapped of
             CreateRule t g c \<Rightarrow> ToCreate trelloLabel g c
           | FetchRule t g \<Rightarrow>
               (case find (label_matches g) githubLabels of
                  None \<Rightarrow> Missing trelloLabel g
                | Some githubLabel \<Rightarrow> Mapped trelloLabel githubLabel)))"

text \<open>The loop: \<open>labels\<close> starts empty and gets one push per source label.\<close>

fun label_loop :: "map_format \<Rightarrow> gh_label list \<Rightarrow> trello_label list \<Rightarrow> label list \<Rightarrow> label list" where
  "label_loop m githubLabels [] labels = labels"
| "label_loop m githubLabels (trelloLabel # rest) labels =
     label_loop m githubLabels rest (labels @ [resolve_label m githubLabels trelloLabel])"

text \<open>
  The Identity Matcher in the specification's words: a target label whose ID equals an
  integer reference, or whose name equals the reference.
\<close>

fun spec_label_match :: "reference \<Rightarrow> gh_label \<Rightarrow> bool" where
  "spec_label_match (RInt n) g = (ghl_id g = n)"
| "spec_label_match (RStr s) g = (ghl_name g = s)"

section \<open>List rules (src/index.ts, lines 378-397 and 432-511)\<close>

text \<open>
  The mutable variables of the resolution phase. The two JavaScript \<open>Map\<close>s keep their
  keys in insertion order and \<open>set\<close> on a present key replaces its value in place: an
  association list under \<open>AList.update\<close>, read with \<open>map_of\<close>.
\<close>

record resolution =
  labels :: "label list"
  invalidLists :: "string list"
  validMilestones :: "(string \<times> gh_milestone) list"
  missingMilestones :: "reference list"
  usedStatusWithoutProject :: bool
  validStatusFields :: "(string \<times> status_option) list"
  missingStatusFields :: "reference list"
  statusFieldsToCreate :: "(string \<times> string) list"

definition initial_resolution :: resolution where
  "initial_resolution =
     \<lparr>labels = [], invalidLists = [], validMilestones = [], missingMilestones = [],
      usedStatusWithoutProject = False, validStatusFields = [], missingStatusFields = [],
      statusFieldsToCreate = []\<rparr>"

text \<open>\<open>trello.lists.find((list) => list.id === key || list.name === key)\<close>\<close>

definition find_list :: "board \<Rightarrow> string \<Rightarrow> trello_list option" where
  "find_list trello k = find (\<lambda>l. list_id l = k \<or> list_name l = k) (b_lists trello)"

text \<open>
  \<open>(Number.isInteger(ref) && (milestone.id === ref || milestone.number === ref))
     || milestone.title === ref\<close>
\<close>

definition milestone_matches :: "reference \<Rightarrow> gh_milestone \<Rightarrow> bool" where
  "milestone_matches r ms =
     ((isInteger r \<and> (num_eq (ms_id ms) r \<or> num_eq (ms_number ms) r)) \<or> str_eq (ms_title ms) r)"

text \<open>\<open>field.id === ref || field.name === ref\<close>: both sides of each test are strings.\<close>

definition status_matches :: "reference \<Rightarrow> status_option \<Rightarrow> bool" where
  "status_matches r field = (str_eq (opt_id field) r \<or> str_eq (opt_name field) r)"

text \<open>
  The body of \<open>for (const mapping of map.lists)\<close>, last block first. Each \<open>continue\<close>
  of the source is a branch that returns the state without running the blocks after it.

  Lines 473-496, the status block.
\<close>

definition status_block ::
  "project_info option \<Rightarrow> trello_list \<Rightarrow> list_rule \<Rightarrow> resolution \<Rightarrow> resolution" where
  "status_block projectInfo trelloList mapping st =
     (if projectInfo \<noteq> None \<and> truthy (m_status mapping) then
        (case projectInfo of
           None \<Rightarrow> st\<lparr>usedStatusWithoutProject := True\<rparr>
         | Some info \<Rightarrow>
             (case m_status mapping of
                None \<Rightarrow> st
              | Some status \<Rightarrow>
                  (case find (status_matches status) (statusFieldOptions info) of
                     None \<Rightarrow>
                       (case status of
                          RStr name \<Rightarrow>
                            (if m_create mapping
                             then st\<lparr>statusFieldsToCreate :=
                                       statusFieldsToCreate st @ [(list_id trelloList, name)]\<rparr>
                             else st\<lparr>missingStatusFields := missingStatusFields st @ [status]\<rparr>)
                        | RInt n \<Rightarrow>
                            st\<lparr>missingStatusFields := missingStatusFields st @ [status]\<rparr>)
                   | Some projectStatusField \<Rightarrow>
                       st\<lparr>validStatusFields :=
                            AList.update (list_id trelloList) projectStatusField
                              (validStatusFields st)\<rparr>)))
      else st)"

text \<open>Lines 458-471, the milestone block, then the status block.\<close>

definition milestone_block ::
  "gh_milestone list \<Rightarrow> project_info option \<Rightarrow> trello_list \<Rightarrow> list_rule \<Rightarrow> resolution
     \<Rightarrow> resolution" where
  "milestone_block githubMilestones projectInfo trelloList mapping st =
     (case (if truthy (m_milestone mapping) then m_milestone mapping else None) of
        None \<Rightarrow> status_block projectInfo trelloList mapping st
      | Some milestone \<Rightarrow>
          (case find (milestone_matches milestone) githubMilestones of
             None \<Rightarrow> st\<lparr>missingMilestones := missingMilestones st @ [milestone]\<rparr>
           | Some githubMilestone \<Rightarrow>
               status_block projectInfo trelloList mapping
                 (st\<lparr>validMilestones :=
                       AList.update (list_id trelloList) githubMilestone (validMilestones st)\<rparr>)))"

text \<open>Lines 441-456, the label block, then the milestone block.\<close>

definition label_block ::
  "gh_label list \<Rightarrow> gh_milestone list \<Rightarrow> project_info option \<Rightarrow> trello_list \<Rightarrow> list_rule
     \<Rightarrow> resolution \<Rightarrow> resolution" where
  "label_block githubLabels githubMilestones projectInfo trelloList mapping st =
     (case (if truthy (m_label mapping) then m_label mapping else None) of
        None \<Rightarrow> milestone_block githubMilestones projectInfo trelloList mapping st
      | Some lab \<Rightarrow>
          (case find (label_matches lab) githubLabels of
             None \<Rightarrow> st\<lparr>labels := labels st @ [MissingList lab trelloList]\<rparr>
           | Some githubLabel \<Rightarrow>
               milestone_block githubMilestones projectInfo trelloList mapping
                 (st\<lparr>labels := labels st @ [ListMapped githubLabel trelloList]\<rparr>)))"

text \<open>Lines 433-439, then the three blocks: one iteration of the loop.\<close>

definition list_rule_step ::
  "board \<Rightarrow> gh_label list \<Rightarrow> gh_milestone list \<Rightarrow> project_info option \<Rightarrow> list_rule
     \<Rightarrow> resolution \<Rightarrow> resolution" where
  "list_rule_step trello githubLabels githubMilestones projectInfo mapping st =
     (case find_list trello (m_list mapping) of
        None \<Rightarrow> st\<lparr>invalidLists := invalidLists st @ [m_list mapping]\<rparr>
      | Some trelloList \<Rightarrow>
          label_block githubLabels githubMilestones projectInfo trelloList mapping st)"

fun list_rule_loop ::
  "board \<Rightarrow> gh_label list \<Rightarrow> gh_milestone list \<Rightarrow> project_info option \<Rightarrow> list_rule list
     \<Rightarrow> resolution \<Rightarrow> resolution" where
  "list_rule_loop trello githubLabels githubMilestones projectInfo [] st = st"
| "list_rule_loop trello githubLabels githubMilestones projectInfo (mapping # rest) st =
     list_rule_loop trello githubLabels githubMilestones projectInfo rest
       (list_rule_step trello githubLabels githubMilestones projectInfo mapping st)"

text \<open>
  Lines 499-511: \<open>for (const listKey of map.skip.lists)\<close>, on the pair of
  \<open>skippedLists\<close> and \<open>invalidLists\<close>.
\<close>

fun skip_loop ::
  "board \<Rightarrow> string list \<Rightarrow> trello_list list \<times> string list \<Rightarrow> trello_list list \<times> string list" where
  "skip_loop trello [] acc = acc"
| "skip_loop trello (listKey # rest) (skippedLists, invalid) =
     (case find_list trello listKey of
        Some trelloList \<Rightarrow> skip_loop trello rest (skippedLists @ [trelloList], invalid)
      | None \<Rightarrow> skip_loop trello rest (skippedLists, invalid @ [listKey]))"

text \<open>
  Lines 378-511 together: the label loop, the list rule loop and the skip loop, on the
  variables they share. The result is the resolution and \<open>skippedLists\<close>.
\<close>

definition resolve ::
  "board \<Rightarrow> map_format \<Rightarrow> gh_label list \<Rightarrow> gh_milestone list \<Rightarrow> project_info option
     \<Rightarrow> resolution \<times> trello_list list" where
  "resolve trello m githubLabels githubMilestones projectInfo =
     (let st1 = initial_resolution\<lparr>labels := label_loop m githubLabels (b_labels trello) []\<rparr>;
          st2 = list_rule_loop trello githubLabels githubMilestones projectInfo (map_lists m) st1;
          (skippedLists, invalid) = skip_loop trello (map_skip_lists m) ([], invalidLists st2)
      in (st2\<lparr>invalidLists := invalid\<rparr>, skippedLists))"

text \<open>Lines 517-524: the three views of \<open>labels\<close>.\<close>

fun is_mapped_label :: "label \<Rightarrow> bool" where
  "is_mapped_label (ToCreate t n c) = True"
| "is_mapped_label (Mapped t g) = True"
| "is_mapped_label (ListMapped g l) = True"
| "is_mapped_label other = False"

fun is_missing_label :: "label \<Rightarrow> bool" where
  "is_missing_label (Missing t r) = True"
| "is_missing_label (MissingList r l) = True"
| "is_missing_label other = False"

fun is_skipped_label :: "label \<Rightarrow> bool" where
  "is_skipped_label (Skipped t) = True"
| "is_skipped_label other = False"

definition mappedLabels :: "resolution \<Rightarrow> label list" where
  "mappedLabels st = filter is_mapped_label (labels st)"

definition missingLabels :: "resolution \<Rightarrow> label list" where
  "missingLabels st = filter is_missing_label (labels st)"

definition skippedLabels :: "resolution \<Rightarrow> label list" where
  "skippedLabels st = filter is_skipped_label (labels st)"

section \<open>Users and project (src/index.ts, lines 294-376 and 618-619)\<close>

text \<open>
  What \<open>GET /users/{username}\<close> answers: the user (of whom the program reads the login),
  a 404, or any other failure. A call that throws is the value \<open>Throws\<close>.
\<close>

datatype user_lookup = UserFound string | UserNotFound | UserLookupFailed

datatype 'a result = Throws | Returns 'a

text \<open>
  An entry of \<open>users\<close>: \<open>{trelloName, github}\<close> with the user found, or
  \<open>{trelloName, githubName, github: null}\<close>.
\<close>

datatype resolved_user = Verified string string | Unverified string string

fun users_loop ::
  "(string \<Rightarrow> user_lookup) \<Rightarrow> user_rule list \<Rightarrow> resolved_user list \<Rightarrow> resolved_user list result" where
  "users_loop lookup [] users = Returns users"
| "users_loop lookup (u # rest) users =
     (case lookup (ur_github u) of
        UserFound login \<Rightarrow> users_loop lookup rest (users @ [Verified (ur_trello u) login])
      | UserNotFound \<Rightarrow>
          users_loop lookup rest (users @ [Unverified (ur_trello u) (ur_github u)])
      | UserLookupFailed \<Rightarrow> Throws)"

fun has_github :: "resolved_user \<Rightarrow> bool" where
  "has_github (Verified t login) = True"
| "has_github (Unverified t g) = False"

definition validMembers :: "resolved_user list \<Rightarrow> resolved_user list" where
  "validMembers users = filter has_github users"

definition invalidMembers :: "resolved_user list \<Rightarrow> resolved_user list" where
  "invalidMembers users = filter (\<lambda>mem. \<not> has_github mem) users"

record field_node =
  fld_id :: string
  fld_name :: string
  fld_options :: "status_option list"

record project_response =
  resp_id :: string
  resp_title :: string
  resp_fields :: "field_node list"

text \<open>
  \<open>getProjectInfo\<close>: \<open>null\<close> when \<open>map.project\<close> is falsy (absent, or the number 0);
  the \<open>invariant\<close> throws when the project has no field named Status.
\<close>

definition getProjectInfo :: "map_format \<Rightarrow> project_response result \<Rightarrow> project_info option result" where
  "getProjectInfo m response =
     (if map_project m = None \<or> map_project m = Some 0 then Returns None
      else
        (case response of
           Throws \<Rightarrow> Throws
         | Returns res \<Rightarrow>
             (case find (\<lambda>field. fld_name field = ''Status'') (resp_fields res) of
                None \<Rightarrow> Throws
              | Some statusField \<Rightarrow>
                  Returns (Some \<lparr>projectId = resp_id res, projectName = resp_title res,
                                 statusFieldId = fld_id statusField,
                                 statusFieldOptions = fld_options statusField\<rparr>))))"

section \<open>Card transformer (src/index.ts, lines 698-809)\<close>

text \<open>\<open>Array.prototype.join\<close> on strings.\<close>

fun join :: "string \<Rightarrow> string list \<Rightarrow> string" where
  "join s [] = []"
| "join s [x] = x"
| "join s (x # y # ys) = x @ s @ join s (y # ys)"

fun member_matches :: "member \<Rightarrow> resolved_user \<Rightarrow> bool" where
  "member_matches trelloMember (Verified trelloName login) =
     (trelloName \<in> set [mem_id trelloMember, mem_username trelloMember, mem_fullName trelloMember])"
| "member_matches trelloMember (Unverified trelloName g) =
     (trelloName \<in> set [mem_id trelloMember, mem_username trelloMember, mem_fullName trelloMember])"

fun github_login :: "resolved_user \<Rightarrow> string option" where
  "github_login (Verified t login) = Some login"
| "github_login (Unverified t g) = None"

definition mapMemberId :: "board \<Rightarrow> resolved_user list \<Rightarrow> string \<Rightarrow> string option" where
  "mapMemberId trello valid trelloMemberId =
     (case find (\<lambda>mem. mem_id mem = trelloMemberId) (b_members trello) of
        None \<Rightarrow> None
      | Some trelloMember \<Rightarrow>
          (case find (member_matches trelloMember) valid of
             None \<Rightarrow> None
           | Some mem \<Rightarrow> github_login mem))"

definition mapMemberIds :: "board \<Rightarrow> resolved_user list \<Rightarrow> string list \<Rightarrow> string list" where
  "mapMemberIds trello valid trelloMemberIds =
     List.map_filter (mapMemberId trello valid) trelloMemberIds"

fun item_line :: "check_item \<Rightarrow> string" where
  "item_line item =
     (if ci_state item = Complete then ''- [x] '' @ ci_name item else ''- [ ] '' @ ci_name item)"

fun checklist_lines :: "checklist list \<Rightarrow> string list \<Rightarrow> string list" where
  "checklist_lines [] res = res"
| "checklist_lines (cl # rest) res =
     checklist_lines rest (res @ [''### '' @ cl_name cl] @ map item_line (cl_checkItems cl))"

definition getChecklistContentForCard :: "board \<Rightarrow> card \<Rightarrow> string option" where
  "getChecklistContentForCard trello c =
     (let checklists =
            List.map_filter (\<lambda>i. find (\<lambda>cl. cl_id cl = i) (b_checklists trello))
              (card_idChecklists c)
      in if length checklists < 1 then None
         else Some (join ''\<newline>'' (checklist_lines checklists [''\<newline>## Checklists''])))"

definition separator :: string where
  "separator = ''\<newline>\<newline>---\<newline>\<newline>''"

definition provenance :: "card \<Rightarrow> string" where
  "provenance c =
     ''> Migrated from [Trello Card]('' @ card_url c @ '')\<newline>''
     @ join ''\<newline>'' (map (\<lambda>a. ''- ['' @ att_name a @ '']('' @ att_url a @ '')'') (card_attachments c))"

text \<open>
  \<open>getDescriptionForCard\<close>. \<open>if (checklistStr)\<close> tests a \<open>string | null\<close>: true for a
  string that is not empty.
\<close>

fun truthy_str :: "string option \<Rightarrow> bool" where
  "truthy_str None = False"
| "truthy_str (Some s) = (s \<noteq> [])"

definition getDescriptionForCard :: "board \<Rightarrow> card \<Rightarrow> string" where
  "getDescriptionForCard trello c =
     (let body0 = (if length (card_desc c) > 0 then card_desc c else []);
          checklistStr = getChecklistContentForCard trello c;
          body1 = (case checklistStr of
                     None \<Rightarrow> body0
                   | Some s \<Rightarrow>
                       (if truthy_str checklistStr
                        then (if length (card_desc c) > 0 then body0 @ separator else body0) @ s
                        else body0));
          body2 = (if length (card_desc c) > 0 \<or> truthy_str checklistStr
                   then body1 @ separator else body1)
      in body2 @ provenance c)"

fun mapped_name_for :: "string \<Rightarrow> label \<Rightarrow> string option" where
  "mapped_name_for trelloName (ToCreate t n c) = (if tl_name t = trelloName then Some n else None)"
| "mapped_name_for trelloName (Mapped t g) = (if tl_name t = trelloName then Some (ghl_name g) else None)"
| "mapped_name_for trelloName other = None"

fun list_label_for :: "string \<Rightarrow> label \<Rightarrow> string option" where
  "list_label_for idList (ListMapped g l) = (if list_id l = idList then Some (ghl_name g) else None)"
| "list_label_for idList other = None"

text \<open>\<open>xs.find(p)\<close> followed by a read of the element found: the first hit of a partial map.\<close>

fun find_map :: "('a \<Rightarrow> 'b option) \<Rightarrow> 'a list \<Rightarrow> 'b option" where
  "find_map f [] = None"
| "find_map f (x # xs) = (case f x of Some y \<Rightarrow> Some y | None \<Rightarrow> find_map f xs)"

definition getLabelsForCard :: "label list \<Rightarrow> card \<Rightarrow> string list" where
  "getLabelsForCard mapped c =
     List.map_filter (\<lambda>trelloName. find_map (mapped_name_for trelloName) mapped)
       (map tl_name (card_labels c))
     @ (case find_map (list_label_for (card_idList c)) mapped of
          None \<Rightarrow> []
        | Some n \<Rightarrow> [n])"

text \<open>
  \<open>getCommentsForCard\<close>. The filter keeps the actions of type \<open>commentCard\<close> of this card;
  \<open>Array.prototype.sort\<close> is stable and the comparator is the difference of the dates.
  \<open>member ? ... : ...\<close> tests a \<open>string | null\<close>: true for a login that is not empty.
  \<open>toLocaleDateString\<close> depends on the host's locale and is a parameter; the bullet of the
  header is U+2022, three bytes in UTF-8.
\<close>

fun comment_of :: "card \<Rightarrow> action \<Rightarrow> comment_action option" where
  "comment_of c (CommentCard a) = (if act_idCard a = card_id c then Some a else None)"
| "comment_of c OtherAction = None"

definition bullet :: string where
  "bullet = [CHR 0xE2, CHR 0x80, CHR 0xA2]"

definition render_comment ::
  "(int \<Rightarrow> string) \<Rightarrow> board \<Rightarrow> resolved_user list \<Rightarrow> comment_action \<Rightarrow> string" where
  "render_comment toLocaleDateString trello valid a =
     (let memberString =
            (case mapMemberId trello valid (creator_id a) of
               Some login \<Rightarrow>
                 (if login \<noteq> [] then ''@'' @ login else ''`@'' @ creator_username a @ ''`'')
             | None \<Rightarrow> ''`@'' @ creator_username a @ ''`'');
          header = ''## '' @ memberString @ '' '' @ bullet @ '' '' @ toLocaleDateString (act_date a)
      in header @ ''\<newline>'' @ act_text a)"

definition getCommentsForCard ::
  "(int \<Rightarrow> string) \<Rightarrow> board \<Rightarrow> resolved_user list \<Rightarrow> card \<Rightarrow> string list" where
  "getCommentsForCard toLocaleDateString trello valid c =
     (let commentActions = sort_key act_date (List.map_filter (comment_of c) (b_actions trello))
      in map (render_comment toLocaleDateString trello valid) commentActions)"

section \<open>Target calls and the host\<close>

text \<open>
  The mutating calls of the program, with the arguments it sends (the repository's owner
  and name, the same in every call, are left out): \<open>POST .../labels\<close>,
  \<open>POST .../issues\<close>, \<open>POST .../issues/{issue_number}/comments\<close>,
  \<open>addProjectV2ItemById\<close> (project, content) and \<open>updateProjectV2ItemFieldValue\<close>
  (project, item, field, option).
\<close>

record issue_request =
  req_title :: string
  req_body :: string
  req_labels :: "string list"
  req_assignees :: "string list"
  req_milestone :: "int option"

datatype call =
    CreateLabel string "string option"
  | CreateIssue issue_request
  | CreateComment int string
  | AddProjectItem string string
  | UpdateStatus string string string string

datatype label_response = LabelCreated | LabelExists | LabelFailed

record issue_response =
  issue_number :: int
  issue_node_id :: string

text \<open>
  A node of the project's items as the paginated query returns it: the content is an
  issue's number and title (absent for an item that is not an issue), the status is the
  name of the item's Status value, if it has one.
\<close>

record project_node =
  node_id :: string
  node_content :: "(int \<times> string) option"
  node_status :: "string option"

record items_page =
  pg_nodes :: "project_node list"
  pg_hasNextPage :: bool
  pg_endCursor :: "string option"

text \<open>
  The target, as the program sees it. The snapshot: labels, milestones, user lookups,
  the project query. The mutating endpoints answer as a function of the calls issued so
  far, the current one last; \<open>LabelExists\<close> is the error 422, \<open>False\<close> and \<open>Throws\<close>
  are a call that throws.
\<close>

record target =
  t_labels :: "gh_label list"
  t_milestones :: "gh_milestone list"
  t_user :: "string \<Rightarrow> user_lookup"
  t_project :: "project_response result"
  t_items :: "call list \<Rightarrow> string option \<Rightarrow> items_page result"
  t_post_label :: "call list \<Rightarrow> label_response"
  t_post_issue :: "call list \<Rightarrow> issue_response result"
  t_post_comment :: "call list \<Rightarrow> bool"
  t_add_item :: "call list \<Rightarrow> string result"
  t_update_status :: "call list \<Rightarrow> bool"

text \<open>
  The command line options the program declares (lines 20-53), the answers to its two
  confirmation prompts (a cancelled prompt counts as no) and the host's date format.
\<close>

record options =
  dryRun :: bool
  keepClosed :: bool
  keepClosedLists :: bool

record host =
  confirm_skipped :: bool
  confirm_existing :: bool
  toLocaleDateString :: "int \<Rightarrow> string"

section \<open>Label creation (src/index.ts, lines 652-696)\<close>

fun toCreate_of :: "label \<Rightarrow> (string \<times> string option) option" where
  "toCreate_of (ToCreate t n c) = Some (n, c)"
| "toCreate_of other = None"

definition labelsToCreate :: "resolution \<Rightarrow> (string \<times> string option) list" where
  "labelsToCreate st = List.map_filter toCreate_of (labels st)"

definition existingLabelsToCreate :: "gh_label list \<Rightarrow> resolution \<Rightarrow> (string \<times> string option) list" where
  "existingLabelsToCreate githubLabels st =
     filter (\<lambda>(n, c). \<exists>ghLabel\<in>set githubLabels. ghl_name ghLabel = n) (labelsToCreate st)"

text \<open>\<open>color?.trim().replace(/^#/, "")\<close>, on ASCII white space.\<close>

definition is_space :: "char \<Rightarrow> bool" where
  "is_space ch = (ch \<in> set [CHR '' '', CHR 0x09, CHR 0x0A, CHR 0x0B, CHR 0x0C, CHR 0x0D])"

definition trim :: "string \<Rightarrow> string" where
  "trim s = rev (dropWhile is_space (rev (dropWhile is_space s)))"

fun strip_hash :: "string \<Rightarrow> string" where
  "strip_hash [] = []"
| "strip_hash (ch # rest) = (if ch = CHR ''#'' then rest else ch # rest)"

fun create_labels :: "target \<Rightarrow> (string \<times> string option) list \<Rightarrow> call list \<Rightarrow> bool \<times> call list" where
  "create_labels env [] tr = (True, tr)"
| "create_labels env ((n, c) # rest) tr =
     (let tr' = tr @ [CreateLabel n (map_option (strip_hash \<circ> trim) c)]
      in case t_post_label env tr' of
           LabelCreated \<Rightarrow> create_labels env rest tr'
         | LabelExists \<Rightarrow> create_labels env rest tr'
         | LabelFailed \<Rightarrow> (False, tr'))"

section \<open>Status synchronisation (src/index.ts, lines 858-978)\<close>

record existing_item =
  item_id :: string
  issueNumber :: int
  issueTitle :: string
  currentStatus :: "string option"

text \<open>
  Lines 908-917: an item is kept when \<open>item.content && item.content.number\<close> is truthy;
  its status is \<open>item.fieldValueByName?.name || null\<close>, which turns an empty name into
  \<open>null\<close>.
\<close>

definition node_items :: "project_node \<Rightarrow> existing_item list" where
  "node_items n =
     (case node_content n of
        None \<Rightarrow> []
      | Some (number, title) \<Rightarrow>
          (if number = 0 then []
           else [\<lparr>item_id = node_id n, issueNumber = number, issueTitle = title,
                  currentStatus = (case node_status n of
                                     None \<Rightarrow> None
                                   | Some s \<Rightarrow> if s = [] then None else Some s)\<rparr>]))"

text \<open>
  \<open>getExistingProjectItems\<close>: \<open>while (hasNextPage)\<close>, which ends only when the target
  says so. The cursor goes into the query when it is truthy. \<open>None\<close> is a loop that never
  ends.
\<close>

partial_function (option) fetch_items ::
  "(string option \<Rightarrow> items_page result) \<Rightarrow> string option \<Rightarrow> existing_item list
     \<Rightarrow> existing_item list result option" where
  "fetch_items query cursor items =
     (case query (if cursor = Some [] then None else cursor) of
        Throws \<Rightarrow> Some Throws
      | Returns pg \<Rightarrow>
          (if pg_hasNextPage pg
           then fetch_items query (pg_endCursor pg) (items @ concat (map node_items (pg_nodes pg)))
           else Some (Returns (items @ concat (map node_items (pg_nodes pg))))))"

declare fetch_items.simps [code]

text \<open>
  Lines 940-972, the loop over the existing items: the result says whether the loop
  ran to its end (\<open>setIssueStatus\<close> rethrows what the call throws) and gives the calls
  issued.
\<close>

fun sync_loop ::
  "target \<Rightarrow> project_info \<Rightarrow> card list \<Rightarrow> (string \<times> status_option) list \<Rightarrow> existing_item list
     \<Rightarrow> call list \<Rightarrow> bool \<times> call list" where
  "sync_loop env info cards statusFields [] tr = (True, tr)"
| "sync_loop env info cards statusFields (item # rest) tr =
     (case find (\<lambda>c. card_name c = issueTitle item) cards of
        None \<Rightarrow> sync_loop env info cards statusFields rest tr
      | Some trelloCard \<Rightarrow>
          (case map_of statusFields (card_idList trelloCard) of
             None \<Rightarrow> sync_loop env info cards statusFields rest tr
           | Some expectedStatus \<Rightarrow>
               (if currentStatus item \<noteq> Some (opt_name expectedStatus)
                then
                  (let tr' = tr @ [UpdateStatus (projectId info) (item_id item)
                                     (statusFieldId info) (opt_id expectedStatus)]
                   in if t_update_status env tr'
                      then sync_loop env info cards statusFields rest tr'
                      else (False, tr'))
                else sync_loop env info cards statusFields rest tr)))"

text \<open>Lines 927-978: the pass runs when a project is configured and a status resolved.\<close>

definition sync_existing ::
  "target \<Rightarrow> project_info option \<Rightarrow> card list \<Rightarrow> (string \<times> status_option) list \<Rightarrow> call list
     \<Rightarrow> (bool \<times> call list) option" where
  "sync_existing env projectInfo cards statusFields tr =
     (case projectInfo of
        None \<Rightarrow> Some (True, tr)
      | Some info \<Rightarrow>
          (if length statusFields > 0
           then
             (case fetch_items (t_items env tr) None [] of
                None \<Rightarrow> None
              | Some Throws \<Rightarrow> Some (False, tr)
              | Some (Returns existingItems) \<Rightarrow>
                  Some (sync_loop env info cards statusFields existingItems tr))
           else Some (True, tr)))"

section \<open>Issue creation (src/index.ts, lines 994-1037)\<close>

fun comment_loop :: "target \<Rightarrow> int \<Rightarrow> string list \<Rightarrow> call list \<Rightarrow> bool \<times> call list" where
  "comment_loop env number [] tr = (True, tr)"
| "comment_loop env number (comment # rest) tr =
     (let tr' = tr @ [CreateComment number comment]
      in if t_post_comment env tr' then comment_loop env number rest tr' else (False, tr'))"

text \<open>The request of line 995; the milestone is \<open>validMilestones.get(card.id)?.number\<close>.\<close>

definition issue_request_for ::
  "board \<Rightarrow> resolution \<Rightarrow> resolved_user list \<Rightarrow> card \<Rightarrow> issue_request" where
  "issue_request_for trello st users c =
     \<lparr>req_title = card_name c,
      req_body = getDescriptionForCard trello c,
      req_labels = getLabelsForCard (mappedLabels st) c,
      req_assignees = mapMemberIds trello (validMembers users) (card_idMembers c),
      req_milestone = map_option ms_number (map_of (validMilestones st) (card_id c))\<rparr>"

definition project_step ::
  "target \<Rightarrow> project_info option \<Rightarrow> resolution \<Rightarrow> card \<Rightarrow> issue_response \<Rightarrow> call list
     \<Rightarrow> bool \<times> call list" where
  "project_step env projectInfo st c issue tr =
     (case projectInfo of
        None \<Rightarrow> (True, tr)
      | Some info \<Rightarrow>
          (let tr1 = tr @ [AddProjectItem (projectId info) (issue_node_id issue)]
           in case t_add_item env tr1 of
                Throws \<Rightarrow> (False, tr1)
              | Returns itemId \<Rightarrow>
                  (case map_of (validStatusFields st) (card_idList c) of
                     None \<Rightarrow> (True, tr1)
                   | Some status \<Rightarrow>
                       (let tr2 = tr1 @ [UpdateStatus (projectId info) itemId
                                           (statusFieldId info) (opt_id status)]
                        in (t_update_status env tr2, tr2)))))"

definition card_step ::
  "host \<Rightarrow> target \<Rightarrow> board \<Rightarrow> resolution \<Rightarrow> resolved_user list \<Rightarrow> project_info option \<Rightarrow> card
     \<Rightarrow> call list \<Rightarrow> bool \<times> call list" where
  "card_step h env trello st users projectInfo c tr =
     (let tr1 = tr @ [CreateIssue (issue_request_for trello st users c)]
      in case t_post_issue env tr1 of
           Throws \<Rightarrow> (False, tr1)
         | Returns issue \<Rightarrow>
             (case comment_loop env (issue_number issue)
                     (getCommentsForCard (toLocaleDateString h) trello (validMembers users) c) tr1 of
                (False, tr2) \<Rightarrow> (False, tr2)
              | (True, tr2) \<Rightarrow> project_step env projectInfo st c issue tr2))"

fun issue_loop ::
  "host \<Rightarrow> target \<Rightarrow> board \<Rightarrow> resolution \<Rightarrow> resolved_user list \<Rightarrow> project_info option
     \<Rightarrow> card list \<Rightarrow> call list \<Rightarrow> bool \<times> call list" where
  "issue_loop h env trello st users projectInfo [] tr = (True, tr)"
| "issue_loop h env trello st users projectInfo (c # rest) tr =
     (case card_step h env trello st users projectInfo c tr of
        (False, tr') \<Rightarrow> (False, tr')
      | (True, tr') \<Rightarrow> issue_loop h env trello st users projectInfo rest tr')"

section \<open>Validation and the run (src/index.ts, lines 260-272, 513-515 and 561-668)\<close>

text \<open>
  The lines the program logs for the failure classes, in the order of lines 561-631, each
  with the entries it lists.
\<close>

datatype report_line =
    MissingLabelsError "label list"
  | InvalidListsError "string list"
  | MissingMilestonesError "reference list"
  | MissingStatusFieldsError "reference list"
  | StatusFieldsToCreateWarning "(string \<times> string) list"
  | StatusWithoutProjectError
  | InvalidMembersError "resolved_user list"

definition failure_report :: "resolution \<Rightarrow> resolved_user list \<Rightarrow> report_line list" where
  "failure_report st users =
     (if length (missingLabels st) > 0 then [MissingLabelsError (missingLabels st)] else [])
     @ (if length (invalidLists st) > 0 then [InvalidListsError (invalidLists st)] else [])
     @ (if length (missingMilestones st) > 0
        then [MissingMilestonesError (missingMilestones st)] else [])
     @ (if length (missingStatusFields st) > 0
        then [MissingStatusFieldsError (missingStatusFields st)] else [])
     @ (if length (statusFieldsToCreate st) > 0
        then [StatusFieldsToCreateWarning (statusFieldsToCreate st)] else [])
     @ (if usedStatusWithoutProject st then [StatusWithoutProjectError] else [])
     @ (if length (invalidMembers users) > 0
        then [InvalidMembersError (invalidMembers users)] else [])"

text \<open>The condition of lines 633-641, under which the program calls \<open>fail()\<close>.\<close>

definition plan_fails :: "resolution \<Rightarrow> resolved_user list \<Rightarrow> bool" where
  "plan_fails st users =
     (length (missingLabels st) > 0
      \<or> length (invalidMembers users) > 0
      \<or> length (invalidLists st) > 0
      \<or> length (missingMilestones st) > 0
      \<or> length (missingStatusFields st) > 0
      \<or> length (statusFieldsToCreate st) > 0
      \<or> usedStatusWithoutProject st)"

text \<open>
  How a run ends: an exception (\<open>Crashed\<close>), \<open>fail()\<close> (\<open>Failed\<close>), \<open>onCancel()\<close>
  (\<open>Cancelled\<close>) or the last line (\<open>Completed\<close>); with the mutating calls it issued and
  the failure lines it logged.
\<close>

datatype outcome = Crashed | Failed | Cancelled | Completed

record run_result =
  outcome :: outcome
  calls :: "call list"
  report :: "report_line list"

text \<open>Lines 260-272: closed cards and the cards of closed lists are dropped.\<close>

definition open_cards :: "options \<Rightarrow> board \<Rightarrow> card list" where
  "open_cards opts trello =
     (let cards1 = (if \<not> keepClosed opts then filter (\<lambda>c. \<not> card_closed c) (b_cards trello)
                    else b_cards trello);
          closedLists = map list_id (filter list_closed (b_lists trello))
      in if \<not> keepClosedLists opts then filter (\<lambda>c. card_idList c \<notin> set closedLists) cards1
         else cards1)"

text \<open>Lines 513-515: the cards of the skipped lists are dropped.\<close>

definition kept_cards :: "trello_list list \<Rightarrow> card list \<Rightarrow> card list" where
  "kept_cards skippedLists cards =
     filter (\<lambda>c. \<not> (\<exists>l\<in>set skippedLists. list_id l = card_idList c)) cards"

text \<open>Lines 513-1040, from the resolution on.\<close>

definition execute ::
  "host \<Rightarrow> target \<Rightarrow> board \<Rightarrow> resolution \<Rightarrow> trello_list list \<Rightarrow> resolved_user list
     \<Rightarrow> project_info option \<Rightarrow> run_result option" where
  "execute h env trello0 st skippedLists users projectInfo =
     (let trello = trello0\<lparr>b_cards := kept_cards skippedLists (b_cards trello0)\<rparr>;
          rep = failure_report st users
      in if plan_fails st users then Some \<lparr>outcome = Failed, calls = [], report = rep\<rparr>
         else if length (skippedLabels st) > 0 \<and> \<not> confirm_skipped h
         then Some \<lparr>outcome = Cancelled, calls = [], report = rep\<rparr>
         else if length (existingLabelsToCreate (t_labels env) st) > 0 \<and> \<not> confirm_existing h
         then Some \<lparr>outcome = Cancelled, calls = [], report = rep\<rparr>
         else
           (case create_labels env (labelsToCreate st) [] of
              (False, tr1) \<Rightarrow> Some \<lparr>outcome = Crashed, calls = tr1, report = rep\<rparr>
            | (True, tr1) \<Rightarrow>
                (case sync_existing env projectInfo (b_cards trello) (validStatusFields st) tr1 of
                   None \<Rightarrow> None
                 | Some (False, tr2) \<Rightarrow> Some \<lparr>outcome = Crashed, calls = tr2, report = rep\<rparr>
                 | Some (True, tr2) \<Rightarrow>
                     (case issue_loop h env trello st users projectInfo (b_cards trello) tr2 of
                        (False, tr3) \<Rightarrow> Some \<lparr>outcome = Crashed, calls = tr3, report = rep\<rparr>
                      | (True, tr3) \<Rightarrow> Some \<lparr>outcome = Completed, calls = tr3, report = rep\<rparr>))))"

text \<open>
  The whole program from the parsed inputs on: the card filters, the user lookups, the
  project query, the resolution, and the rest.
\<close>

definition run :: "options \<Rightarrow> host \<Rightarrow> target \<Rightarrow> board \<Rightarrow> map_format \<Rightarrow> run_result option" where
  "run opts h env trello0 m =
     (let trello = trello0\<lparr>b_cards := open_cards opts trello0\<rparr>
      in case users_loop (t_user env) (map_users m) [] of
           Throws \<Rightarrow> Some \<lparr>outcome = Crashed, calls = [], report = []\<rparr>
         | Returns users \<Rightarrow>
             (case getProjectInfo m (t_project env) of
                Throws \<Rightarrow> Some \<lparr>outcome = Crashed, calls = [], report = []\<rparr>
              | Returns projectInfo \<Rightarrow>
                  (case resolve trello m (t_labels env) (t_milestones env) projectInfo of
                     (st, skippedLists) \<Rightarrow>
                       execute h env trello st skippedLists users projectInfo)))"

section \<open>The specification's words, and the target's side of the status pass\<close>

text \<open>
  The comments of a card in the specification's words: the comment-type actions whose
  card reference equals the card's ID, in the order of the export.
\<close>

definition card_comments :: "board \<Rightarrow> card \<Rightarrow> comment_action list" where
  "card_comments trello c = [a . CommentCard a \<leftarrow> b_actions trello, act_idCard a = card_id c]"

text \<open>
  The seventh failure class in the specification's words: a list rule with a status
  reference while no project number is configured.
\<close>

definition status_rule_without_project :: "map_format \<Rightarrow> bool" where
  "status_rule_without_project m =
     (map_project m = None \<and> (\<exists>r\<in>set (map_lists m). m_status r \<noteq> None))"









section \<open>Example inputs\<close>

text \<open>
  A board with two lists and one card, which has an empty description, one checklist,
  one attachment and three comments; a mapping file without rules; a target with one
  label, one milestone and a project whose Status field has two options.
\<close>

definition ex_label :: trello_label where
  "ex_label = \<lparr>tl_id = ''B1'', tl_name = ''bug'', tl_color = ''red'', tl_uses = 1\<rparr>"

definition ex_card :: card where
  "ex_card =
     \<lparr>card_id = ''C1'', card_name = ''Fix bug'', card_url = ''https://trello.com/c/1'',
      card_closed = False, card_desc = [], card_idChecklists = [''K1''], card_idList = ''L1'',
      card_idMembers = [''M1''], card_labels = [ex_label],
      card_attachments =
        [\<lparr>att_id = ''A1'', att_name = ''spec'', att_url = ''https://example.com/spec''\<rparr>]\<rparr>"

definition ex_todo :: trello_list where
  "ex_todo = \<lparr>list_id = ''L1'', list_name = ''Todo'', list_closed = False\<rparr>"

definition ex_board :: board where
  "ex_board =
     \<lparr>b_lists = [ex_todo, \<lparr>list_id = ''L2'', list_name = ''Done'', list_closed = False\<rparr>],
      b_members = [\<lparr>mem_id = ''M1'', mem_fullName = ''Alice A'', mem_username = ''alice''\<rparr>],
      b_actions = [],
      b_cards = [ex_card],
      b_labels = [ex_label],
      b_checklists =
        [\<lparr>cl_id = ''K1'', cl_name = ''Tasks'', cl_idCard = ''C1'',
          cl_checkItems = [\<lparr>ci_id = ''i1'', ci_name = ''write'', ci_state = Complete\<rparr>,
                           \<lparr>ci_id = ''i2'', ci_name = ''test'', ci_state = Incomplete\<rparr>]\<rparr>]\<rparr>"

definition ex_comment :: "string \<Rightarrow> string \<Rightarrow> int \<Rightarrow> comment_action" where
  "ex_comment i txt d =
     \<lparr>act_id = i, creator_id = ''M1'', creator_username = ''alice'', act_idCard = ''C1'',
      act_text = txt, act_date = d\<rparr>"

definition ex_map :: map_format where
  "ex_map =
     \<lparr>map_owner = OwnerName ''octo'', map_repo = ''demo'', map_project = None,
      map_labels = [], map_users = [], map_lists = [], map_skip_lists = []\<rparr>"

definition ex_rule :: list_rule where
  "ex_rule =
     \<lparr>m_list = ''Todo'', m_status = None, m_create = False, m_label = None, m_milestone = None\<rparr>"

definition ex_bug :: gh_label where
  "ex_bug = \<lparr>ghl_id = 1, ghl_name = ''bug''\<rparr>"

definition ex_v1 :: gh_milestone where
  "ex_v1 = \<lparr>ms_id = 10, ms_number = 1, ms_title = ''v1''\<rparr>"

definition ex_opt_todo :: status_option where
  "ex_opt_todo = \<lparr>opt_id = ''o1'', opt_name = ''Todo'', opt_color = ''GRAY''\<rparr>"

definition ex_opt_done :: status_option where
  "ex_opt_done = \<lparr>opt_id = ''o2'', opt_name = ''Done'', opt_color = ''GREEN''\<rparr>"

definition ex_info :: project_info where
  "ex_info =
     \<lparr>projectId = ''P1'', projectName = ''Board'', statusFieldId = ''F1'',
      statusFieldOptions = [ex_opt_todo, ex_opt_done]\<rparr>"

definition ex_target :: target where
  "ex_target =
     \<lparr>t_labels = [ex_bug],
      t_milestones = [ex_v1],
      t_user = (\<lambda>u. if u = ''ghost'' then UserNotFound else UserFound u),
      t_project =
        Returns \<lparr>resp_id = ''P1'', resp_title = ''Board'',
                 resp_fields = [\<lparr>fld_id = ''F1'', fld_name = ''Status'',
                                 fld_options = [ex_opt_todo, ex_opt_done]\<rparr>]\<rparr>,
      t_items = (\<lambda>tr cursor. Returns \<lparr>pg_nodes = [], pg_hasNextPage = False, pg_endCursor = None\<rparr>),
      t_post_label = (\<lambda>tr. LabelCreated),
      t_post_issue = (\<lambda>tr. Returns \<lparr>issue_number = 7, issue_node_id = ''N7''\<rparr>),
      t_post_comment = (\<lambda>tr. True),
      t_add_item = (\<lambda>tr. Returns ''I7''),
      t_update_status = (\<lambda>tr. True)\<rparr>"

definition ex_host :: host where
  "ex_host =
     \<lparr>confirm_skipped = True, confirm_existing = True, toLocaleDateString = (\<lambda>d. ''1/1/2026'')\<rparr>"

definition ex_opts :: options where
  "ex_opts = \<lparr>dryRun = False, keepClosed = False, keepClosedLists = False\<rparr>"

text \<open>The mapping files of the inputs on which the program and its specification differ.\<close>

definition c1_map :: map_format where
  "c1_map = ex_map\<lparr>map_lists := [ex_rule\<lparr>m_status := Some (RStr ''Done'')\<rparr>]\<rparr>"

definition c2_map :: map_format where
  "c2_map = ex_map\<lparr>map_lists := [ex_rule\<lparr>m_milestone := Some (RStr ''v1'')\<rparr>]\<rparr>"

definition c3_rule :: list_rule where
  "c3_rule =
     ex_rule\<lparr>m_label := Some (RStr ''nolabel''), m_milestone := Some (RStr ''nomilestone''),
             m_status := Some (RStr ''nostatus'')\<rparr>"

definition c3_map :: map_format where
  "c3_map = ex_map\<lparr>map_project := Some 3, map_lists := [c3_rule]\<rparr>"

text \<open>The checklist section of the example card.\<close>

definition ex_section :: string where
  "ex_section = ''\<newline>## Checklists\<newline>### Tasks\<newline>- [x] write\<newline>- [ ] test''"

text \<open>
  List rules for the status block: one whose list the board does not have, and three on
  the list Todo that hit an option, miss with a name, and miss with a number.
\<close>

definition c7_map :: map_format where
  "c7_map = ex_map\<lparr>map_project := Some 3,
                   map_lists := [ex_rule\<lparr>m_list := ''Nowhere'', m_status := Some (RStr ''Done'')\<rparr>]\<rparr>"

definition c7_hit_rule :: list_rule where
  "c7_hit_rule = ex_rule\<lparr>m_status := Some (RStr ''Done''), m_create := True\<rparr>"

definition c7_pending_rule :: list_rule where
  "c7_pending_rule = ex_rule\<lparr>m_status := Some (RStr ''Review''), m_create := True\<rparr>"

definition c7_numeric_rule :: list_rule where
  "c7_numeric_rule = ex_rule\<lparr>m_status := Some (RInt 5), m_create := True\<rparr>"

text \<open>
  The specification's scenario for the status pass: the rule "list Todo, status Done", two
  cards of the list Todo, and two project items, "Fix bug" with the status Todo and
  "Add feature" with the status Done.
\<close>

definition c6_map :: map_format where
  "c6_map = ex_map\<lparr>map_project := Some 3,
                   map_lists := [ex_rule\<lparr>m_status := Some (RStr ''Done'')\<rparr>]\<rparr>"

definition c6_cards :: "card list" where
  "c6_cards = [ex_card, ex_card\<lparr>card_id := ''C2'', card_name := ''Add feature''\<rparr>]"

definition c6_nodes :: "project_node list" where
  "c6_nodes =
     [\<lparr>node_id = ''I1'', node_content = Some (1, ''Fix bug''), node_status = Some ''Todo''\<rparr>,
      \<lparr>node_id = ''I2'', node_content = Some (2, ''Add feature''), node_status = Some ''Done''\<rparr>]"






section \<open>Predicates of the proofs\<close>

text \<open>What an iteration has collected for the status rules stays collected.\<close>

definition status_grows :: "resolution \<Rightarrow> resolution \<Rightarrow> bool" where
  "status_grows st st' =
     (fst ` set (validStatusFields st) \<subseteq> fst ` set (validStatusFields st')
      \<and> set (missingStatusFields st) \<subseteq> set (missingStatusFields st')
      \<and> set (statusFieldsToCreate st) \<subseteq> set (statusFieldsToCreate st'))"



section \<open>Properties\<close>

subsection \<open>Label resolver\<close>

lemma label_matches_spec: "label_matches r g = spec_label_match r g"
  by (cases r) (simp_all add: label_matches_def)

lemma label_loop_map:
  "label_loop m gh tls acc = acc @ map (resolve_label m gh) tls"
  by (induction tls arbitrary: acc) simp_all

lemma find_None_iff_all: "(find P xs = None) = (\<forall>x\<in>set xs. \<not> P x)"
  by (induction xs) simp_all

text \<open>
  Claim C8. The label loop pushes exactly one classification per source label, in order.
  With \<open>rule\<close> the first mapping rule whose source name equals the label's name:
  the label is \<open>Skipped\<close> when no rule's source name equals it; \<open>ToCreate\<close>, with the
  rule's target name and optional colour, when \<open>rule\<close> has \<open>create = true\<close>;
  \<open>Mapped\<close> to the first target label whose ID equals the integer reference or whose
  name equals the reference, when \<open>rule\<close> has \<open>create = false\<close> and such a label exists;
  \<open>Missing\<close> when \<open>rule\<close> has \<open>create = false\<close> and no target label matches.
\<close>

theorem C8_label_resolver:
  "label_loop m gh tls [] = map (resolve_label m gh) tls
   \<and> ((\<forall>r\<in>set (map_labels m). lr_trello r \<noteq> tl_name lab)
        \<longrightarrow> resolve_label m gh lab = Skipped lab)
   \<and> (find (\<lambda>r. lr_trello r = tl_name lab) (map_labels m) = Some rule \<and> lr_create rule
        \<longrightarrow> resolve_label m gh lab = ToCreate lab (create_github rule) (create_color rule))
   \<and> (find (\<lambda>r. lr_trello r = tl_name lab) (map_labels m) = Some rule \<and> \<not> lr_create rule
        \<and> (\<exists>g\<in>set gh. spec_label_match (fetch_github rule) g)
        \<longrightarrow> (\<exists>g\<in>set gh. resolve_label m gh lab = Mapped lab g
                \<and> spec_label_match (fetch_github rule) g
                \<and> find (spec_label_match (fetch_github rule)) gh = Some g))
   \<and> (find (\<lambda>r. lr_trello r = tl_name lab) (map_labels m) = Some rule \<and> \<not> lr_create rule
        \<and> (\<forall>g\<in>set gh. \<not> spec_label_match (fetch_github rule) g)
        \<longrightarrow> resolve_label m gh lab = Missing lab (fetch_github rule))"
proof -
  have same: "label_matches r = spec_label_match r" for r
    by (rule ext) (rule label_matches_spec)
  have loop: "label_loop m gh tls [] = map (resolve_label m gh) tls"
    by (simp add: label_loop_map)
  have skipped: "(\<forall>r\<in>set (map_labels m). lr_trello r \<noteq> tl_name lab)
      \<longrightarrow> resolve_label m gh lab = Skipped lab"
  proof
    assume "\<forall>r\<in>set (map_labels m). lr_trello r \<noteq> tl_name lab"
    then have "find (\<lambda>r. lr_trello r = tl_name lab) (map_labels m) = None"
      by (simp add: find_None_iff_all)
    then show "resolve_label m gh lab = Skipped lab"
      by (simp add: resolve_label_def)
  qed
  have created: "find (\<lambda>r. lr_trello r = tl_name lab) (map_labels m) = Some rule \<and> lr_create rule
      \<longrightarrow> resolve_label m gh lab = ToCreate lab (create_github rule) (create_color rule)"
    by (cases rule) (simp_all add: resolve_label_def)
  have mapped: "find (\<lambda>r. lr_trello r = tl_name lab) (map_labels m) = Some rule \<and> \<not> lr_create rule
        \<and> (\<exists>g\<in>set gh. spec_label_match (fetch_github rule) g)
        \<longrightarrow> (\<exists>g\<in>set gh. resolve_label m gh lab = Mapped lab g
                \<and> spec_label_match (fetch_github rule) g
                \<and> find (spec_label_match (fetch_github rule)) gh = Some g)"
  proof
    assume a: "find (\<lambda>r. lr_trello r = tl_name lab) (map_labels m) = Some rule \<and> \<not> lr_create rule
        \<and> (\<exists>g\<in>set gh. spec_label_match (fetch_github rule) g)"
    then obtain t ref where rule: "rule = FetchRule t ref"
      by (cases rule) simp_all
    from a rule have "find (spec_label_match ref) gh \<noteq> None"
      by (simp add: find_None_iff_all)
    then obtain g where g: "find (spec_label_match ref) gh = Some g"
      by blast
    then have "g \<in> set gh" and "spec_label_match ref g"
      by (auto simp: find_Some_iff)
    with a rule g show "\<exists>g\<in>set gh. resolve_label m gh lab = Mapped lab g
                \<and> spec_label_match (fetch_github rule) g
                \<and> find (spec_label_match (fetch_github rule)) gh = Some g"
      by (intro bexI [of _ g]) (simp_all add: resolve_label_def same)
  qed
  have missing: "find (\<lambda>r. lr_trello r = tl_name lab) (map_labels m) = Some rule \<and> \<not> lr_create rule
        \<and> (\<forall>g\<in>set gh. \<not> spec_label_match (fetch_github rule) g)
        \<longrightarrow> resolve_label m gh lab = Missing lab (fetch_github rule)"
  proof
    assume a: "find (\<lambda>r. lr_trello r = tl_name lab) (map_labels m) = Some rule \<and> \<not> lr_create rule
        \<and> (\<forall>g\<in>set gh. \<not> spec_label_match (fetch_github rule) g)"
    then obtain t ref where rule: "rule = FetchRule t ref"
      by (cases rule) simp_all
    from a rule have "find (spec_label_match ref) gh = None"
      by (simp add: find_None_iff_all)
    with a rule show "resolve_label m gh lab = Missing lab (fetch_github rule)"
      by (simp add: resolve_label_def same)
  qed
  from loop skipped created mapped missing show ?thesis
    by blast
qed

theorem C8_label_resolver_witness:
  "resolve_label (ex_map\<lparr>map_labels := [FetchRule ''bug'' (RStr ''bug'')]\<rparr>) [ex_bug] ex_label
     = Mapped ex_label ex_bug
   \<and> resolve_label (ex_map\<lparr>map_labels := [FetchRule ''bug'' (RInt 99)]\<rparr>) [ex_bug] ex_label
     = Missing ex_label (RInt 99)
   \<and> resolve_label (ex_map\<lparr>map_labels := [CreateRule ''bug'' ''defect'' (Some ''#ff0000'')]\<rparr>)
        [ex_bug] ex_label
     = ToCreate ex_label ''defect'' (Some ''#ff0000'')
   \<and> resolve_label ex_map [ex_bug] ex_label = Skipped ex_label"
proof -
  have mapped: "resolve_label (ex_map\<lparr>map_labels := [FetchRule ''bug'' (RStr ''bug'')]\<rparr>)
      [ex_bug] ex_label = Mapped ex_label ex_bug"
    using C8_label_resolver [where m = "ex_map\<lparr>map_labels := [FetchRule ''bug'' (RStr ''bug'')]\<rparr>"
        and gh = "[ex_bug]" and lab = ex_label and rule = "FetchRule ''bug'' (RStr ''bug'')"]
    by (simp add: ex_label_def ex_bug_def)
  have missing: "resolve_label (ex_map\<lparr>map_labels := [FetchRule ''bug'' (RInt 99)]\<rparr>)
      [ex_bug] ex_label = Missing ex_label (RInt 99)"
    using C8_label_resolver [where m = "ex_map\<lparr>map_labels := [FetchRule ''bug'' (RInt 99)]\<rparr>"
        and gh = "[ex_bug]" and lab = ex_label and rule = "FetchRule ''bug'' (RInt 99)"]
    by (simp add: ex_label_def ex_bug_def)
  have created: "resolve_label
      (ex_map\<lparr>map_labels := [CreateRule ''bug'' ''defect'' (Some ''#ff0000'')]\<rparr>) [ex_bug] ex_label
      = ToCreate ex_label ''defect'' (Some ''#ff0000'')"
    using C8_label_resolver
      [where m = "ex_map\<lparr>map_labels := [CreateRule ''bug'' ''defect'' (Some ''#ff0000'')]\<rparr>"
        and gh = "[ex_bug]" and lab = ex_label
        and rule = "CreateRule ''bug'' ''defect'' (Some ''#ff0000'')"]
    by (simp add: ex_label_def)
  have skipped: "resolve_label ex_map [ex_bug] ex_label = Skipped ex_label"
    using C8_label_resolver [where m = ex_map and gh = "[ex_bug]" and lab = ex_label]
    by (simp add: ex_map_def)
  from mapped missing created skipped show ?thesis
    by simp
qed

subsection \<open>Status rules without a project\<close>

lemma status_block_flag:
  "usedStatusWithoutProject (status_block p l r st) = usedStatusWithoutProject st"
  by (simp add: status_block_def split: option.splits reference.splits)

lemma milestone_block_flag:
  "usedStatusWithoutProject (milestone_block ms p l r st) = usedStatusWithoutProject st"
  by (simp add: milestone_block_def status_block_flag split: option.splits)

lemma label_block_flag:
  "usedStatusWithoutProject (label_block ls ms p l r st) = usedStatusWithoutProject st"
  by (simp add: label_block_def milestone_block_flag split: option.splits)

lemma list_rule_step_flag:
  "usedStatusWithoutProject (list_rule_step b ls ms p r st) = usedStatusWithoutProject st"
  by (simp add: list_rule_step_def label_block_flag split: option.splits)

lemma list_rule_loop_flag:
  "usedStatusWithoutProject (list_rule_loop b ls ms p rs st) = usedStatusWithoutProject st"
  by (induction rs arbitrary: st) (simp_all add: list_rule_step_flag)

lemma resolve_flag: "usedStatusWithoutProject (fst (resolve b m ls ms p)) = False"
  by (simp add: resolve_def Let_def list_rule_loop_flag initial_resolution_def split: prod.splits)

text \<open>
  Claim C1, on the code. The mapping file \<open>c1_map\<close> has no project number and a list
  rule with the status reference "Done". The flag \<open>usedStatusWithoutProject\<close> stays
  false (as it does on every input: its assignment stands under
  \<open>if (projectInfo && mapping.status)\<close>), the report is empty, and the run goes on to
  create the card's issue and completes.
\<close>

theorem C1_status_without_project_is_ignored:
  "map_project c1_map = None
   \<and> map m_status (map_lists c1_map) = [Some (RStr ''Done'')]
   \<and> usedStatusWithoutProject (fst (resolve trello m ghLabels ghMilestones projectInfo)) = False
   \<and> map_option outcome (run ex_opts ex_host ex_target ex_board c1_map) = Some Completed
   \<and> map_option report (run ex_opts ex_host ex_target ex_board c1_map) = Some []
   \<and> map_option (length \<circ> calls) (run ex_opts ex_host ex_target ex_board c1_map) = Some 1"
proof -
  have cfg: "map_project c1_map = None \<and> map m_status (map_lists c1_map) = [Some (RStr ''Done'')]"
    by (simp add: c1_map_def ex_map_def ex_rule_def)
  have ends: "map_option outcome (run ex_opts ex_host ex_target ex_board c1_map) = Some Completed"
    by code_simp
  have rep: "map_option report (run ex_opts ex_host ex_target ex_board c1_map) = Some []"
    by code_simp
  have n: "map_option (length \<circ> calls) (run ex_opts ex_host ex_target ex_board c1_map) = Some 1"
    by code_simp
  from cfg ends rep n show ?thesis
    by (simp add: resolve_flag)
qed

subsection \<open>The milestone of a created issue\<close>

text \<open>
  Claim C2, on the code. With the rule "list Todo, milestone v1" the resolver records
  milestone number 1 under the ID of the list Todo, \<open>L1\<close>. The card \<open>C1\<close> is in that list,
  and the request that creates its issue carries no milestone: line 1001 reads the map at
  the card's ID, not at the card's list ID.
\<close>

theorem C2_milestone_read_by_card_id:
  "map_of (validMilestones (fst (resolve ex_board c2_map [ex_bug] [ex_v1] None))) (card_idList ex_card)
     = Some ex_v1
   \<and> req_milestone (issue_request_for ex_board
        (fst (resolve ex_board c2_map [ex_bug] [ex_v1] None)) [] ex_card) = None
   \<and> map_option calls (run ex_opts ex_host ex_target ex_board c2_map)
     = Some [CreateIssue (issue_request_for ex_board
               (fst (resolve ex_board c2_map [ex_bug] [ex_v1] None)) [] ex_card)]"
proof -
  have recorded: "map_of (validMilestones (fst (resolve ex_board c2_map [ex_bug] [ex_v1] None)))
      (card_idList ex_card) = Some ex_v1"
    by code_simp
  have sent: "req_milestone (issue_request_for ex_board
        (fst (resolve ex_board c2_map [ex_bug] [ex_v1] None)) [] ex_card) = None"
    by code_simp
  have issued: "map_option calls (run ex_opts ex_host ex_target ex_board c2_map)
     = Some [CreateIssue (issue_request_for ex_board
               (fst (resolve ex_board c2_map [ex_bug] [ex_v1] None)) [] ex_card)]"
    by code_simp
  from recorded sent issued show ?thesis
    by simp
qed

subsection \<open>The rules of one list\<close>

text \<open>
  Claim C3, on the code. The rule \<open>c3_rule\<close> of the list Todo has a label, a milestone and
  a status reference, none of which the target has. The label block's \<open>continue\<close> ends the
  iteration: the report has the label alone. Without the label rule the milestone is
  reported, and without both the status is.
\<close>

theorem C3_label_failure_hides_the_others:
  "map_option report (run ex_opts ex_host ex_target ex_board c3_map)
     = Some [MissingLabelsError [MissingList (RStr ''nolabel'') ex_todo]]
   \<and> map_option report
       (run ex_opts ex_host ex_target ex_board (c3_map\<lparr>map_lists := [c3_rule\<lparr>m_label := None\<rparr>]\<rparr>))
     = Some [MissingMilestonesError [RStr ''nomilestone'']]
   \<and> map_option report
       (run ex_opts ex_host ex_target ex_board
          (c3_map\<lparr>map_lists := [c3_rule\<lparr>m_label := None, m_milestone := None\<rparr>]\<rparr>))
     = Some [MissingStatusFieldsError [RStr ''nostatus'']]"
proof -
  have all_three: "map_option report (run ex_opts ex_host ex_target ex_board c3_map)
     = Some [MissingLabelsError [MissingList (RStr ''nolabel'') ex_todo]]"
    by code_simp
  have no_label: "map_option report
       (run ex_opts ex_host ex_target ex_board (c3_map\<lparr>map_lists := [c3_rule\<lparr>m_label := None\<rparr>]\<rparr>))
     = Some [MissingMilestonesError [RStr ''nomilestone'']]"
    by code_simp
  have status_only: "map_option report
       (run ex_opts ex_host ex_target ex_board
          (c3_map\<lparr>map_lists := [c3_rule\<lparr>m_label := None, m_milestone := None\<rparr>]\<rparr>))
     = Some [MissingStatusFieldsError [RStr ''nostatus'']]"
    by code_simp
  from all_three no_label status_only show ?thesis
    by simp
qed

subsection \<open>The dry-run option\<close>

lemma dry_run_still_creates:
  "map_option (length \<circ> calls) (run (ex_opts\<lparr>dryRun := True\<rparr>) ex_host ex_target ex_board ex_map)
     = Some 1"
  by code_simp

text \<open>
  Claim C10. The option \<open>--dry-run\<close> is declared and never read: the run is the same
  with it and without it, and so is the sequence of mutating calls.
\<close>

theorem C10_dry_run_has_no_effect:
  "run (opts\<lparr>dryRun := True\<rparr>) h env trello m = run (opts\<lparr>dryRun := False\<rparr>) h env trello m"
  by (simp add: run_def open_cards_def)

text \<open>
  A whole run on the scenario of the status pass, the project's items on two pages: the
  pass updates the item of "Fix bug", then each of the two cards gets its issue, its
  project item and its status, seven calls in all.
\<close>

lemma full_run_example:
  "map_option (\<lambda>r. (outcome r, take 1 (calls r), length (calls r)))
     (run ex_opts ex_host
        (ex_target\<lparr>t_items := (\<lambda>tr cursor.
            if cursor = None
            then Returns \<lparr>pg_nodes = take 1 c6_nodes, pg_hasNextPage = True, pg_endCursor = Some ''p2''\<rparr>
            else Returns \<lparr>pg_nodes = drop 1 c6_nodes, pg_hasNextPage = False, pg_endCursor = None\<rparr>)\<rparr>)
        (ex_board\<lparr>b_cards := c6_cards\<rparr>) c6_map)
     = Some (Completed, [UpdateStatus ''P1'' ''I1'' ''F1'' ''o2''], 7)"
  by code_simp

subsection \<open>Comments\<close>

lemma map_filter_comment_of:
  "List.map_filter (comment_of c) acts = [a . CommentCard a \<leftarrow> acts, act_idCard a = card_id c]"
proof (induction acts)
  case Nil
  show ?case by simp
next
  case (Cons x acts)
  then show ?case by (cases x) simp_all
qed

text \<open>
  Claim C9. The rendered comments of a card are the renderings of a list \<open>ordered\<close>
  that holds exactly the comment-type actions whose card reference equals the card's ID
  (as a multiset), is ascending in the timestamp, and keeps actions of one timestamp in
  their input order. Each rendering is the header, naming the mapped login or else the
  quoted source username, then the date, then a line break and the original text.
\<close>

theorem C9_comments:
  "\<exists>ordered.
      getCommentsForCard fmt trello valid c
        = map (\<lambda>a. ''## ''
                    @ (case mapMemberId trello valid (creator_id a) of
                         Some login \<Rightarrow>
                           (if login \<noteq> [] then ''@'' @ login
                            else ''`@'' @ creator_username a @ ''`'')
                       | None \<Rightarrow> ''`@'' @ creator_username a @ ''`'')
                    @ '' '' @ bullet @ '' '' @ fmt (act_date a)
                    @ ''\<newline>'' @ act_text a) ordered
      \<and> mset ordered = mset (card_comments trello c)
      \<and> sorted (map act_date ordered)
      \<and> (\<forall>t. filter (\<lambda>a. act_date a = t) ordered
              = filter (\<lambda>a. act_date a = t) (card_comments trello c))"
proof -
  let ?ordered = "sort_key act_date (card_comments trello c)"
  have same: "List.map_filter (comment_of c) (b_actions trello) = card_comments trello c"
    by (simp add: map_filter_comment_of card_comments_def)
  have rendered: "getCommentsForCard fmt trello valid c
        = map (\<lambda>a. ''## ''
                    @ (case mapMemberId trello valid (creator_id a) of
                         Some login \<Rightarrow>
                           (if login \<noteq> [] then ''@'' @ login
                            else ''`@'' @ creator_username a @ ''`'')
                       | None \<Rightarrow> ''`@'' @ creator_username a @ ''`'')
                    @ '' '' @ bullet @ '' '' @ fmt (act_date a)
                    @ ''\<newline>'' @ act_text a) ?ordered"
    by (simp add: getCommentsForCard_def render_comment_def same Let_def)
  have perm: "mset ?ordered = mset (card_comments trello c)"
    by simp
  have asc: "sorted (map act_date ?ordered)"
    by simp
  have stable: "\<forall>t. filter (\<lambda>a. act_date a = t) ?ordered
              = filter (\<lambda>a. act_date a = t) (card_comments trello c)"
    by (simp add: sort_key_stable)
  from rendered perm asc stable show ?thesis
    by blast
qed

text \<open>The specification's example: timestamps 3, 1, 2 in the export render as 1, 2, 3.\<close>

lemma comments_example:
  "getCommentsForCard fmt
      (ex_board\<lparr>b_actions := [CommentCard (ex_comment ''a3'' ''third'' 3), OtherAction,
                               CommentCard (ex_comment ''a1'' ''first'' 1),
                               CommentCard (ex_comment ''a2'' ''second'' 2)]\<rparr>) valid ex_card
     = map (render_comment fmt
      (ex_board\<lparr>b_actions := [CommentCard (ex_comment ''a3'' ''third'' 3), OtherAction,
                               CommentCard (ex_comment ''a1'' ''first'' 1),
                               CommentCard (ex_comment ''a2'' ''second'' 2)]\<rparr>) valid)
         [ex_comment ''a1'' ''first'' 1, ex_comment ''a2'' ''second'' 2, ex_comment ''a3'' ''third'' 3]"
  by (simp add: getCommentsForCard_def ex_comment_def ex_card_def)

subsection \<open>Issue body\<close>

lemma checklist_lines_hd: "checklist_lines cls (x # res) = x # tl (checklist_lines cls (x # res))"
  by (induction cls arbitrary: res) simp_all

lemma prefix_join: "prefix x (join s (x # xs))"
  by (cases xs) simp_all

lemma map_filter_nonempty:
  "\<exists>x\<in>set xs. f x \<noteq> None \<Longrightarrow> List.map_filter f xs \<noteq> []"
  by (induction xs) (auto simp: split: option.splits)

text \<open>
  Claim C4, amended. For every card with an empty description and at least one linked
  checklist of the board, the assembled body is the checklist section (which starts with
  its heading), then exactly one separator, then the provenance section with the
  attachment list. No separator stands before the checklist section.
\<close>

theorem C4_body_layout:
  assumes desc: "card_desc c = []"
    and linked: "\<exists>i\<in>set (card_idChecklists c). \<exists>cl\<in>set (b_checklists trello). cl_id cl = i"
  shows "\<exists>section. getChecklistContentForCard trello c = Some section
           \<and> prefix ''\<newline>## Checklists'' section
           \<and> getDescriptionForCard trello c = section @ separator @ provenance c"
proof -
  let ?cls = "List.map_filter (\<lambda>i. find (\<lambda>cl. cl_id cl = i) (b_checklists trello)) (card_idChecklists c)"
  let ?section = "join ''\<newline>'' (checklist_lines ?cls [''\<newline>## Checklists''])"
  from linked have "\<exists>i\<in>set (card_idChecklists c). find (\<lambda>cl. cl_id cl = i) (b_checklists trello) \<noteq> None"
    by (auto simp: find_None_iff_all)
  then have ne: "?cls \<noteq> []"
    by (rule map_filter_nonempty)
  then have "\<not> length ?cls < 1"
    by (cases ?cls) simp_all
  then have content: "getChecklistContentForCard trello c = Some ?section"
    by (simp add: getChecklistContentForCard_def Let_def)
  have starts: "prefix ''\<newline>## Checklists'' ?section"
    by (subst checklist_lines_hd) (rule prefix_join)
  then have "?section \<noteq> []"
    by auto
  with desc content have body: "getDescriptionForCard trello c = ?section @ separator @ provenance c"
    by (simp add: getDescriptionForCard_def Let_def)
  from content starts body show ?thesis
    by blast
qed

theorem C4_body_layout_witness:
  "card_desc ex_card = []
   \<and> getChecklistContentForCard ex_board ex_card = Some ex_section
   \<and> getDescriptionForCard ex_board ex_card = ex_section @ separator @ provenance ex_card"
proof -
  have desc: "card_desc ex_card = []"
    by (simp add: ex_card_def)
  have linked: "\<exists>i\<in>set (card_idChecklists ex_card). \<exists>cl\<in>set (b_checklists ex_board). cl_id cl = i"
    by (simp add: ex_card_def ex_board_def)
  have content: "getChecklistContentForCard ex_board ex_card = Some ex_section"
    by code_simp
  from C4_body_layout [OF desc linked] content desc show ?thesis
    by auto
qed

text \<open>
  Claim C4 as stated fails on the example card (empty description, one checklist, one
  attachment): its body has no separator before the checklist section.
\<close>

theorem C4_counterexample:
  "card_desc ex_card = []
   \<and> card_idChecklists ex_card = [''K1'']
   \<and> length (card_attachments ex_card) = 1
   \<and> getChecklistContentForCard ex_board ex_card = Some ex_section
   \<and> getDescriptionForCard ex_board ex_card = ex_section @ separator @ provenance ex_card
   \<and> \<not> (\<exists>pre. getDescriptionForCard ex_board ex_card
               = pre @ separator @ ex_section @ separator @ provenance ex_card)"
proof -
  have body: "getDescriptionForCard ex_board ex_card = ex_section @ separator @ provenance ex_card"
    by code_simp
  have content: "getChecklistContentForCard ex_board ex_card = Some ex_section"
    by code_simp
  have no: "\<not> (\<exists>pre. getDescriptionForCard ex_board ex_card
               = pre @ separator @ ex_section @ separator @ provenance ex_card)"
  proof
    assume "\<exists>pre. getDescriptionForCard ex_board ex_card
               = pre @ separator @ ex_section @ separator @ provenance ex_card"
    then obtain pre where "ex_section @ separator @ provenance ex_card
        = pre @ separator @ ex_section @ separator @ provenance ex_card"
      by (auto simp: body)
    then have "length (ex_section @ separator @ provenance ex_card)
        = length (pre @ separator @ ex_section @ separator @ provenance ex_card)"
      by simp
    then show False
      by (simp add: separator_def)
  qed
  from body content no show ?thesis
    by (simp add: ex_card_def)
qed

subsection \<open>Plan validity\<close>

lemma run_resolved:
  assumes "users_loop (t_user env) (map_users m) [] = Returns users"
    and "getProjectInfo m (t_project env) = Returns pinfo"
  shows "run opts h env trello m
    = execute h env (trello\<lparr>b_cards := open_cards opts trello\<rparr>)
        (fst (resolve (trello\<lparr>b_cards := open_cards opts trello\<rparr>) m
               (t_labels env) (t_milestones env) pinfo))
        (snd (resolve (trello\<lparr>b_cards := open_cards opts trello\<rparr>) m
               (t_labels env) (t_milestones env) pinfo)) users pinfo"
  using assms by (simp add: run_def Let_def split: prod.splits)

lemma execute_fails:
  "plan_fails st users \<Longrightarrow>
     execute h env trello st skipped users pinfo
       = Some \<lparr>outcome = Failed, calls = [], report = failure_report st users\<rparr>"
  by (simp add: execute_def Let_def)

lemma execute_valid:
  "\<not> plan_fails st users \<Longrightarrow>
     map_option outcome (execute h env trello st skipped users pinfo) \<noteq> Some Failed"
  by (auto simp: execute_def Let_def split: prod.splits option.splits bool.splits)

text \<open>
  The gate of lines 633-643. With the user lookups and the project query answered, and
  \<open>st\<close> the resolution: the program does not call \<open>fail()\<close> if and only if every list
  and the flag it tests is empty or unset; when it calls \<open>fail()\<close> the run ends as
  \<open>Failed\<close> with no mutating call issued, having logged one line for every list that is
  not empty, each with all the entries collected; otherwise the run does not end as
  \<open>Failed\<close>.
\<close>

lemma fail_gate:
  assumes users: "users_loop (t_user env) (map_users m) [] = Returns users"
    and project: "getProjectInfo m (t_project env) = Returns pinfo"
    and st: "st = fst (resolve (trello\<lparr>b_cards := open_cards opts trello\<rparr>) m
            (t_labels env) (t_milestones env) pinfo)"
  shows "(\<not> plan_fails st users)
          = (missingLabels st = [] \<and> invalidLists st = [] \<and> missingMilestones st = []
             \<and> missingStatusFields st = [] \<and> statusFieldsToCreate st = []
             \<and> invalidMembers users = [] \<and> \<not> usedStatusWithoutProject st)
     \<and> (plan_fails st users
          \<longrightarrow> run opts h env trello m
              = Some \<lparr>outcome = Failed, calls = [], report = failure_report st users\<rparr>)
     \<and> (\<not> plan_fails st users \<longrightarrow> map_option outcome (run opts h env trello m) \<noteq> Some Failed)
     \<and> (missingLabels st \<noteq> [] \<longrightarrow> MissingLabelsError (missingLabels st) \<in> set (failure_report st users))
     \<and> (invalidLists st \<noteq> [] \<longrightarrow> InvalidListsError (invalidLists st) \<in> set (failure_report st users))
     \<and> (missingMilestones st \<noteq> []
          \<longrightarrow> MissingMilestonesError (missingMilestones st) \<in> set (failure_report st users))
     \<and> (missingStatusFields st \<noteq> []
          \<longrightarrow> MissingStatusFieldsError (missingStatusFields st) \<in> set (failure_report st users))
     \<and> (statusFieldsToCreate st \<noteq> []
          \<longrightarrow> StatusFieldsToCreateWarning (statusFieldsToCreate st) \<in> set (failure_report st users))
     \<and> (usedStatusWithoutProject st \<longrightarrow> StatusWithoutProjectError \<in> set (failure_report st users))
     \<and> (invalidMembers users \<noteq> []
          \<longrightarrow> InvalidMembersError (invalidMembers users) \<in> set (failure_report st users))"
proof -
  have valid: "(\<not> plan_fails st users)
          = (missingLabels st = [] \<and> invalidLists st = [] \<and> missingMilestones st = []
             \<and> missingStatusFields st = [] \<and> statusFieldsToCreate st = []
             \<and> invalidMembers users = [] \<and> \<not> usedStatusWithoutProject st)"
    by (auto simp: plan_fails_def)
  have halts: "plan_fails st users
          \<longrightarrow> run opts h env trello m
              = Some \<lparr>outcome = Failed, calls = [], report = failure_report st users\<rparr>"
    by (simp add: run_resolved [OF users project] st execute_fails)
  have goes_on: "\<not> plan_fails st users \<longrightarrow> map_option outcome (run opts h env trello m) \<noteq> Some Failed"
    unfolding run_resolved [OF users project] st by (rule impI) (rule execute_valid)
  have reported:
    "missingLabels st \<noteq> [] \<longrightarrow> MissingLabelsError (missingLabels st) \<in> set (failure_report st users)"
    "invalidLists st \<noteq> [] \<longrightarrow> InvalidListsError (invalidLists st) \<in> set (failure_report st users)"
    "missingMilestones st \<noteq> []
          \<longrightarrow> MissingMilestonesError (missingMilestones st) \<in> set (failure_report st users)"
    "missingStatusFields st \<noteq> []
          \<longrightarrow> MissingStatusFieldsError (missingStatusFields st) \<in> set (failure_report st users)"
    "statusFieldsToCreate st \<noteq> []
          \<longrightarrow> StatusFieldsToCreateWarning (statusFieldsToCreate st) \<in> set (failure_report st users)"
    "usedStatusWithoutProject st \<longrightarrow> StatusWithoutProjectError \<in> set (failure_report st users)"
    "invalidMembers users \<noteq> []
          \<longrightarrow> InvalidMembersError (invalidMembers users) \<in> set (failure_report st users)"
    by (simp_all add: failure_report_def)
  from valid halts goes_on reported show ?thesis
    by blast
qed

lemma fail_gate_example:
  "plan_fails (fst (resolve ex_board c3_map [ex_bug] [ex_v1] (Some ex_info))) []
   \<and> run ex_opts ex_host ex_target ex_board c3_map
       = Some \<lparr>outcome = Failed, calls = [],
               report = [MissingLabelsError [MissingList (RStr ''nolabel'') ex_todo]]\<rparr>
   \<and> \<not> plan_fails (fst (resolve ex_board ex_map [ex_bug] [ex_v1] None)) []
   \<and> map_option outcome (run ex_opts ex_host ex_target ex_board ex_map) \<noteq> Some Failed"
proof -
  have u3: "users_loop (t_user ex_target) (map_users c3_map) [] = Returns []"
    by code_simp
  have p3: "getProjectInfo c3_map (t_project ex_target) = Returns (Some ex_info)"
    by code_simp
  have s3: "fst (resolve ex_board c3_map [ex_bug] [ex_v1] (Some ex_info))
      = fst (resolve (ex_board\<lparr>b_cards := open_cards ex_opts ex_board\<rparr>) c3_map
               (t_labels ex_target) (t_milestones ex_target) (Some ex_info))"
    by code_simp
  have f3: "plan_fails (fst (resolve ex_board c3_map [ex_bug] [ex_v1] (Some ex_info))) []"
    by code_simp
  have r3: "failure_report (fst (resolve ex_board c3_map [ex_bug] [ex_v1] (Some ex_info))) []
      = [MissingLabelsError [MissingList (RStr ''nolabel'') ex_todo]]"
    by code_simp
  have invalid: "run ex_opts ex_host ex_target ex_board c3_map
       = Some \<lparr>outcome = Failed, calls = [],
               report = [MissingLabelsError [MissingList (RStr ''nolabel'') ex_todo]]\<rparr>"
    using fail_gate [OF u3 p3 s3, where h = ex_host] f3 r3 by simp
  have u0: "users_loop (t_user ex_target) (map_users ex_map) [] = Returns []"
    by code_simp
  have p0: "getProjectInfo ex_map (t_project ex_target) = Returns None"
    by code_simp
  have s0: "fst (resolve ex_board ex_map [ex_bug] [ex_v1] None)
      = fst (resolve (ex_board\<lparr>b_cards := open_cards ex_opts ex_board\<rparr>) ex_map
               (t_labels ex_target) (t_milestones ex_target) None)"
    by code_simp
  have f0: "\<not> plan_fails (fst (resolve ex_board ex_map [ex_bug] [ex_v1] None)) []"
    by code_simp
  have valid: "map_option outcome (run ex_opts ex_host ex_target ex_board ex_map) \<noteq> Some Failed"
    using fail_gate [OF u0 p0 s0, where h = ex_host] f0 by blast
  from f3 invalid f0 valid show ?thesis
    by blast
qed

text \<open>
  Claim C5, on the code. The mapping file \<open>c1_map\<close> has a list rule with a status
  reference and no project number: the class "status used without project" is not
  empty. The gate tests the flag \<open>usedStatusWithoutProject\<close>, which is never set (the
  defect of claim C1): the program does not call \<open>fail()\<close>, logs no failure, and
  issues the call that creates the card's issue. For the other six classes the gate is
  as the claim says (lemma \<open>fail_gate\<close>).
\<close>

theorem C5_status_without_project_passes_the_gate:
  "status_rule_without_project c1_map
   \<and> getProjectInfo c1_map (t_project ex_target) = Returns None
   \<and> \<not> plan_fails (fst (resolve ex_board c1_map [ex_bug] [ex_v1] None)) []
   \<and> failure_report (fst (resolve ex_board c1_map [ex_bug] [ex_v1] None)) [] = []
   \<and> run ex_opts ex_host ex_target ex_board c1_map
       = Some \<lparr>outcome = Completed,
               calls = [CreateIssue (issue_request_for ex_board
                          (fst (resolve ex_board c1_map [ex_bug] [ex_v1] None)) [] ex_card)],
               report = []\<rparr>"
proof -
  have cls: "status_rule_without_project c1_map"
    by (simp add: status_rule_without_project_def c1_map_def ex_map_def ex_rule_def)
  have project: "getProjectInfo c1_map (t_project ex_target) = Returns None"
    by code_simp
  have gate: "\<not> plan_fails (fst (resolve ex_board c1_map [ex_bug] [ex_v1] None)) []"
    by code_simp
  have rep: "failure_report (fst (resolve ex_board c1_map [ex_bug] [ex_v1] None)) [] = []"
    by code_simp
  have runs: "run ex_opts ex_host ex_target ex_board c1_map
       = Some \<lparr>outcome = Completed,
               calls = [CreateIssue (issue_request_for ex_board
                          (fst (resolve ex_board c1_map [ex_bug] [ex_v1] None)) [] ex_card)],
               report = []\<rparr>"
    by code_simp
  from cls project gate rep runs show ?thesis
    by simp
qed

subsection \<open>Status rules under a project\<close>

lemma status_block_hit:
  assumes "m_status r = Some s" and "truthy (Some s)"
    and "find (status_matches s) (statusFieldOptions info) = Some f"
  shows "status_block (Some info) l r st
    = st\<lparr>validStatusFields := AList.update (list_id l) f (validStatusFields st)\<rparr>"
  using assms by (simp add: status_block_def)

lemma status_block_pending:
  assumes "m_status r = Some (RStr name)" and "truthy (Some (RStr name))"
    and "find (status_matches (RStr name)) (statusFieldOptions info) = None" and "m_create r"
  shows "status_block (Some info) l r st
    = st\<lparr>statusFieldsToCreate := statusFieldsToCreate st @ [(list_id l, name)]\<rparr>"
  using assms by (simp add: status_block_def)

lemma status_block_missing:
  assumes "m_status r = Some s" and "truthy (Some s)"
    and "find (status_matches s) (statusFieldOptions info) = None"
    and "\<not> m_create r \<or> isInteger s"
  shows "status_block (Some info) l r st
    = st\<lparr>missingStatusFields := missingStatusFields st @ [s]\<rparr>"
  using assms by (cases s) (auto simp: status_block_def)

lemma milestone_block_reaches:
  assumes "\<forall>ms. m_milestone r = Some ms \<and> truthy (Some ms) \<longrightarrow> find (milestone_matches ms) ghm \<noteq> None"
  shows "\<exists>vm. milestone_block ghm p l r st = status_block p l r (st\<lparr>validMilestones := vm\<rparr>)"
proof (cases "truthy (m_milestone r)")
  case False
  then have "milestone_block ghm p l r st = status_block p l r (st\<lparr>validMilestones := validMilestones st\<rparr>)"
    by (simp add: milestone_block_def)
  then show ?thesis by blast
next
  case True
  then obtain ms where ms: "m_milestone r = Some ms"
    by (cases "m_milestone r") simp_all
  with True assms obtain g where "find (milestone_matches ms) ghm = Some g"
    by auto
  with True ms have "milestone_block ghm p l r st
      = status_block p l r (st\<lparr>validMilestones := AList.update (list_id l) g (validMilestones st)\<rparr>)"
    by (simp add: milestone_block_def)
  then show ?thesis by blast
qed

lemma label_block_reaches:
  assumes "\<forall>lab. m_label r = Some lab \<and> truthy (Some lab) \<longrightarrow> find (label_matches lab) ghl \<noteq> None"
  shows "\<exists>ls. label_block ghl ghm p l r st = milestone_block ghm p l r (st\<lparr>labels := ls\<rparr>)"
proof (cases "truthy (m_label r)")
  case False
  then have "label_block ghl ghm p l r st = milestone_block ghm p l r (st\<lparr>labels := labels st\<rparr>)"
    by (simp add: label_block_def)
  then show ?thesis by blast
next
  case True
  then obtain lab where lab: "m_label r = Some lab"
    by (cases "m_label r") simp_all
  with True assms obtain g where "find (label_matches lab) ghl = Some g"
    by auto
  with True lab have "label_block ghl ghm p l r st
      = milestone_block ghm p l r (st\<lparr>labels := labels st @ [ListMapped g l]\<rparr>)"
    by (simp add: label_block_def)
  then show ?thesis by blast
qed

lemma step_reaches_status:
  assumes "find_list trello (m_list r) = Some l"
    and "\<forall>lab. m_label r = Some lab \<and> truthy (Some lab) \<longrightarrow> find (label_matches lab) ghl \<noteq> None"
    and "\<forall>ms. m_milestone r = Some ms \<and> truthy (Some ms) \<longrightarrow> find (milestone_matches ms) ghm \<noteq> None"
  shows "\<exists>ls vm. list_rule_step trello ghl ghm p r st
           = status_block p l r (st\<lparr>labels := ls, validMilestones := vm\<rparr>)"
proof -
  from label_block_reaches [OF assms(2)] obtain ls
    where "label_block ghl ghm p l r st = milestone_block ghm p l r (st\<lparr>labels := ls\<rparr>)"
    by blast
  moreover from milestone_block_reaches [OF assms(3)] obtain vm
    where "milestone_block ghm p l r (st\<lparr>labels := ls\<rparr>)
             = status_block p l r (st\<lparr>labels := ls, validMilestones := vm\<rparr>)"
    by blast
  ultimately show ?thesis
    using assms(1) by (auto simp: list_rule_step_def)
qed

lemma status_block_grows: "status_grows st (status_block p l r st)"
  by (auto simp: status_grows_def status_block_def dom_update split: option.splits reference.splits)

lemma milestone_block_grows: "status_grows st (milestone_block ghm p l r st)"
  using status_block_grows [of "st\<lparr>validMilestones := vm\<rparr>" p l r for vm]
    status_block_grows [of st p l r]
  by (auto simp: milestone_block_def status_grows_def split: option.splits)

lemma label_block_grows: "status_grows st (label_block ghl ghm p l r st)"
  using milestone_block_grows [of "st\<lparr>labels := ls\<rparr>" ghm p l r for ls]
    milestone_block_grows [of st ghm p l r]
  by (auto simp: label_block_def status_grows_def split: option.splits)

lemma list_rule_step_grows: "status_grows st (list_rule_step trello ghl ghm p r st)"
  using label_block_grows [of st ghl ghm p _ r]
  by (auto simp: list_rule_step_def status_grows_def split: option.splits)

lemma status_grows_trans: "status_grows a b \<Longrightarrow> status_grows b c \<Longrightarrow> status_grows a c"
  by (auto simp: status_grows_def)

lemma status_grows_refl: "status_grows a a"
  by (simp add: status_grows_def)

lemma list_rule_loop_grows: "status_grows st (list_rule_loop trello ghl ghm p rs st)"
proof (induction rs arbitrary: st)
  case Nil
  show ?case by (simp add: status_grows_refl)
next
  case (Cons r rs)
  show ?case
    using status_grows_trans [OF list_rule_step_grows Cons.IH] by simp
qed

lemma list_rule_loop_append:
  "list_rule_loop trello ghl ghm p (xs @ ys) st
     = list_rule_loop trello ghl ghm p ys (list_rule_loop trello ghl ghm p xs st)"
  by (induction xs arbitrary: st) simp_all

lemma resolve_status_fields:
  "validStatusFields (fst (resolve trello m ghl ghm p))
     = validStatusFields (list_rule_loop trello ghl ghm p (map_lists m)
         (initial_resolution\<lparr>labels := label_loop m ghl (b_labels trello) []\<rparr>))"
  "missingStatusFields (fst (resolve trello m ghl ghm p))
     = missingStatusFields (list_rule_loop trello ghl ghm p (map_lists m)
         (initial_resolution\<lparr>labels := label_loop m ghl (b_labels trello) []\<rparr>))"
  "statusFieldsToCreate (fst (resolve trello m ghl ghm p))
     = statusFieldsToCreate (list_rule_loop trello ghl ghm p (map_lists m)
         (initial_resolution\<lparr>labels := label_loop m ghl (b_labels trello) []\<rparr>))"
  by (simp_all add: resolve_def Let_def split: prod.splits)

lemma step_hit:
  assumes "find_list trello (m_list r) = Some l"
    and "\<forall>lab. m_label r = Some lab \<and> truthy (Some lab) \<longrightarrow> find (label_matches lab) ghl \<noteq> None"
    and "\<forall>ms. m_milestone r = Some ms \<and> truthy (Some ms) \<longrightarrow> find (milestone_matches ms) ghm \<noteq> None"
    and "m_status r = Some s" and "truthy (Some s)"
    and "find (status_matches s) (statusFieldOptions info) = Some f"
  shows "validStatusFields (list_rule_step trello ghl ghm (Some info) r st)
           = AList.update (list_id l) f (validStatusFields st)
         \<and> missingStatusFields (list_rule_step trello ghl ghm (Some info) r st) = missingStatusFields st
         \<and> statusFieldsToCreate (list_rule_step trello ghl ghm (Some info) r st) = statusFieldsToCreate st"
proof -
  from step_reaches_status [OF assms(1-3)] obtain ls vm
    where "list_rule_step trello ghl ghm (Some info) r st
             = status_block (Some info) l r (st\<lparr>labels := ls, validMilestones := vm\<rparr>)"
    by blast
  then show ?thesis
    by (simp add: status_block_hit [OF assms(4-6)])
qed

lemma step_pending:
  assumes "find_list trello (m_list r) = Some l"
    and "\<forall>lab. m_label r = Some lab \<and> truthy (Some lab) \<longrightarrow> find (label_matches lab) ghl \<noteq> None"
    and "\<forall>ms. m_milestone r = Some ms \<and> truthy (Some ms) \<longrightarrow> find (milestone_matches ms) ghm \<noteq> None"
    and "m_status r = Some (RStr name)" and "truthy (Some (RStr name))"
    and "find (status_matches (RStr name)) (statusFieldOptions info) = None" and "m_create r"
  shows "statusFieldsToCreate (list_rule_step trello ghl ghm (Some info) r st)
           = statusFieldsToCreate st @ [(list_id l, name)]
         \<and> missingStatusFields (list_rule_step trello ghl ghm (Some info) r st) = missingStatusFields st
         \<and> validStatusFields (list_rule_step trello ghl ghm (Some info) r st) = validStatusFields st"
proof -
  from step_reaches_status [OF assms(1-3)] obtain ls vm
    where "list_rule_step trello ghl ghm (Some info) r st
             = status_block (Some info) l r (st\<lparr>labels := ls, validMilestones := vm\<rparr>)"
    by blast
  then show ?thesis
    by (simp add: status_block_pending [OF assms(4-7)])
qed

lemma step_missing:
  assumes "find_list trello (m_list r) = Some l"
    and "\<forall>lab. m_label r = Some lab \<and> truthy (Some lab) \<longrightarrow> find (label_matches lab) ghl \<noteq> None"
    and "\<forall>ms. m_milestone r = Some ms \<and> truthy (Some ms) \<longrightarrow> find (milestone_matches ms) ghm \<noteq> None"
    and "m_status r = Some s" and "truthy (Some s)"
    and "find (status_matches s) (statusFieldOptions info) = None"
    and "\<not> m_create r \<or> isInteger s"
  shows "missingStatusFields (list_rule_step trello ghl ghm (Some info) r st)
           = missingStatusFields st @ [s]
         \<and> statusFieldsToCreate (list_rule_step trello ghl ghm (Some info) r st) = statusFieldsToCreate st
         \<and> validStatusFields (list_rule_step trello ghl ghm (Some info) r st) = validStatusFields st"
proof -
  from step_reaches_status [OF assms(1-3)] obtain ls vm
    where "list_rule_step trello ghl ghm (Some info) r st
             = status_block (Some info) l r (st\<lparr>labels := ls, validMilestones := vm\<rparr>)"
    by blast
  then show ?thesis
    by (simp add: status_block_missing [OF assms(4-7)])
qed

lemma resolve_grows:
  assumes "map_lists m = before @ r # rest"
  shows "status_grows
           (list_rule_step trello ghl ghm p r
              (list_rule_loop trello ghl ghm p before
                 (initial_resolution\<lparr>labels := label_loop m ghl (b_labels trello) []\<rparr>)))
           (fst (resolve trello m ghl ghm p))"
  using list_rule_loop_grows [of
      "list_rule_step trello ghl ghm p r
              (list_rule_loop trello ghl ghm p before
                 (initial_resolution\<lparr>labels := label_loop m ghl (b_labels trello) []\<rparr>))"
      trello ghl ghm p rest]
  by (simp add: status_grows_def resolve_status_fields assms list_rule_loop_append)

text \<open>A rule whose list resolves and whose label and milestone rules resolve.\<close>

lemma status_rule_on_resolved_list:
  fixes start :: resolution and info :: project_info
  assumes rules: "map_lists m = before @ r # rest"
    and list: "find_list trello (m_list r) = Some l"
    and label: "\<forall>lab. m_label r = Some lab \<and> truthy (Some lab) \<longrightarrow> find (label_matches lab) ghl \<noteq> None"
    and milestone:
      "\<forall>ms. m_milestone r = Some ms \<and> truthy (Some ms) \<longrightarrow> find (milestone_matches ms) ghm \<noteq> None"
    and status: "m_status r = Some s"
    and nonzero: "truthy (Some s)"
  defines "after \<equiv> list_rule_step trello ghl ghm (Some info) r start"
    and "final \<equiv> fst (resolve trello m ghl ghm (Some info))"
  shows "(\<forall>f. find (status_matches s) (statusFieldOptions info) = Some f \<longrightarrow>
            map_of (validStatusFields after) (list_id l) = Some f
            \<and> missingStatusFields after = missingStatusFields start
            \<and> statusFieldsToCreate after = statusFieldsToCreate start
            \<and> list_id l \<in> fst ` set (validStatusFields final))
       \<and> (\<forall>name. find (status_matches s) (statusFieldOptions info) = None
              \<and> m_create r \<and> s = RStr name \<longrightarrow>
            statusFieldsToCreate after = statusFieldsToCreate start @ [(list_id l, name)]
            \<and> missingStatusFields after = missingStatusFields start
            \<and> validStatusFields after = validStatusFields start
            \<and> (list_id l, name) \<in> set (statusFieldsToCreate final)
            \<and> plan_fails final users
            \<and> StatusFieldsToCreateWarning (statusFieldsToCreate final)
                 \<in> set (failure_report final users))
       \<and> (find (status_matches s) (statusFieldOptions info) = None
              \<and> (\<not> m_create r \<or> isInteger s) \<longrightarrow>
            missingStatusFields after = missingStatusFields start @ [s]
            \<and> statusFieldsToCreate after = statusFieldsToCreate start
            \<and> validStatusFields after = validStatusFields start
            \<and> s \<in> set (missingStatusFields final)
            \<and> plan_fails final users
            \<and> MissingStatusFieldsError (missingStatusFields final)
                 \<in> set (failure_report final users))"
proof -
  let ?st1 = "initial_resolution\<lparr>labels := label_loop m ghl (b_labels trello) []\<rparr>"
  let ?stb = "list_rule_loop trello ghl ghm (Some info) before ?st1"
  let ?sta = "list_rule_step trello ghl ghm (Some info) r ?stb"
  have grows: "status_grows ?sta final"
    unfolding final_def by (rule resolve_grows [OF rules])
  have hit: "map_of (validStatusFields after) (list_id l) = Some f
            \<and> missingStatusFields after = missingStatusFields start
            \<and> statusFieldsToCreate after = statusFieldsToCreate start
            \<and> list_id l \<in> fst ` set (validStatusFields final)"
    if found: "find (status_matches s) (statusFieldOptions info) = Some f" for f
  proof -
    have "list_id l \<in> fst ` set (validStatusFields ?sta)"
      using step_hit [OF list label milestone status nonzero found, of ?stb]
      by (simp add: dom_update)
    with grows have "list_id l \<in> fst ` set (validStatusFields final)"
      by (auto simp: status_grows_def)
    then show ?thesis
      using step_hit [OF list label milestone status nonzero found, of start]
      by (simp add: after_def update_conv')
  qed
  have pending: "statusFieldsToCreate after = statusFieldsToCreate start @ [(list_id l, name)]
            \<and> missingStatusFields after = missingStatusFields start
            \<and> validStatusFields after = validStatusFields start
            \<and> (list_id l, name) \<in> set (statusFieldsToCreate final)
            \<and> plan_fails final users
            \<and> StatusFieldsToCreateWarning (statusFieldsToCreate final)
                 \<in> set (failure_report final users)"
    if miss: "find (status_matches s) (statusFieldOptions info) = None"
      and create: "m_create r" and name: "s = RStr name" for name
  proof -
    note facts = list label milestone status [unfolded name] nonzero [unfolded name]
      miss [unfolded name] create
    have "(list_id l, name) \<in> set (statusFieldsToCreate ?sta)"
      using step_pending [OF facts, of ?stb] by simp
    with grows have inside: "(list_id l, name) \<in> set (statusFieldsToCreate final)"
      by (auto simp: status_grows_def)
    then have "length (statusFieldsToCreate final) > 0"
      by (cases "statusFieldsToCreate final") simp_all
    then have "plan_fails final users
        \<and> StatusFieldsToCreateWarning (statusFieldsToCreate final) \<in> set (failure_report final users)"
      by (simp add: plan_fails_def failure_report_def)
    with inside show ?thesis
      using step_pending [OF facts, of start] by (simp add: after_def)
  qed
  have missing: "missingStatusFields after = missingStatusFields start @ [s]
            \<and> statusFieldsToCreate after = statusFieldsToCreate start
            \<and> validStatusFields after = validStatusFields start
            \<and> s \<in> set (missingStatusFields final)
            \<and> plan_fails final users
            \<and> MissingStatusFieldsError (missingStatusFields final)
                 \<in> set (failure_report final users)"
    if miss: "find (status_matches s) (statusFieldOptions info) = None"
      and no: "\<not> m_create r \<or> isInteger s"
  proof -
    note facts = list label milestone status nonzero miss no
    have "s \<in> set (missingStatusFields ?sta)"
      using step_missing [OF facts, of ?stb] by simp
    with grows have inside: "s \<in> set (missingStatusFields final)"
      by (auto simp: status_grows_def)
    then have "length (missingStatusFields final) > 0"
      by (cases "missingStatusFields final") simp_all
    then have "plan_fails final users
        \<and> MissingStatusFieldsError (missingStatusFields final) \<in> set (failure_report final users)"
      by (simp add: plan_fails_def failure_report_def)
    with inside show ?thesis
      using step_missing [OF facts, of start] by (simp add: after_def)
  qed
  from hit pending missing show ?thesis
    by blast
qed

lemma step_invalid:
  "find_list trello (m_list r) = None \<Longrightarrow>
     list_rule_step trello ghl ghm p r st = st\<lparr>invalidLists := invalidLists st @ [m_list r]\<rparr>"
  by (simp add: list_rule_step_def)

lemma status_block_invalid: "invalidLists (status_block p l r st) = invalidLists st"
  by (simp add: status_block_def split: option.splits reference.splits)

lemma milestone_block_invalid: "invalidLists (milestone_block ghm p l r st) = invalidLists st"
  by (simp add: milestone_block_def status_block_invalid split: option.splits)

lemma label_block_invalid: "invalidLists (label_block ghl ghm p l r st) = invalidLists st"
  by (simp add: label_block_def milestone_block_invalid split: option.splits)

lemma list_rule_step_invalid:
  "set (invalidLists st) \<subseteq> set (invalidLists (list_rule_step trello ghl ghm p r st))"
  by (auto simp: list_rule_step_def label_block_invalid split: option.splits)

lemma list_rule_loop_invalid:
  "set (invalidLists st) \<subseteq> set (invalidLists (list_rule_loop trello ghl ghm p rs st))"
proof (induction rs arbitrary: st)
  case Nil
  show ?case by simp
next
  case (Cons r rs)
  from list_rule_step_invalid Cons.IH show ?case
    by (simp del: subset_eq) blast
qed

lemma skip_loop_invalid: "set bad \<subseteq> set (snd (skip_loop trello ks (sk, bad)))"
proof (induction ks arbitrary: sk bad)
  case Nil
  show ?case by simp
next
  case (Cons k ks)
  show ?case
  proof (cases "find_list trello k")
    case None
    with Cons.IH [of "bad @ [k]" sk] show ?thesis by simp
  next
    case (Some l)
    with Cons.IH [of bad "sk @ [l]"] show ?thesis by simp
  qed
qed

lemma resolve_invalid:
  assumes "map_lists m = before @ r # rest"
  shows "set (invalidLists (list_rule_step trello ghl ghm p r
              (list_rule_loop trello ghl ghm p before
                 (initial_resolution\<lparr>labels := label_loop m ghl (b_labels trello) []\<rparr>))))
         \<subseteq> set (invalidLists (fst (resolve trello m ghl ghm p)))"
proof -
  let ?st1 = "initial_resolution\<lparr>labels := label_loop m ghl (b_labels trello) []\<rparr>"
  let ?sta = "list_rule_step trello ghl ghm p r (list_rule_loop trello ghl ghm p before ?st1)"
  let ?st2 = "list_rule_loop trello ghl ghm p (map_lists m) ?st1"
  have "?st2 = list_rule_loop trello ghl ghm p rest ?sta"
    by (simp add: assms list_rule_loop_append)
  then have "set (invalidLists ?sta) \<subseteq> set (invalidLists ?st2)"
    by (simp add: list_rule_loop_invalid)
  moreover have "invalidLists (fst (resolve trello m ghl ghm p))
      = snd (skip_loop trello (map_skip_lists m) ([], invalidLists ?st2))"
    by (simp add: resolve_def Let_def split: prod.splits)
  ultimately show ?thesis
    using skip_loop_invalid [of "invalidLists ?st2" trello "map_skip_lists m" "[]"] by simp
qed

text \<open>
  Claim C7, amended. Under a configured project, take a list rule \<open>r\<close> of the mapping
  file with a truthy status reference \<open>s\<close> (a name, or a number other than 0); \<open>after\<close>
  is the state its iteration leaves, whatever state \<open>start\<close> it begins in, and \<open>final\<close>
  the resolution of the run.

  If the rule's list reference does not resolve, the iteration appends the reference to
  \<open>invalidLists\<close> and changes nothing else (the status rule is not evaluated); the
  reference is in the final list, the plan fails and the report has the line for
  invalid lists.

  If it resolves to the source list \<open>l\<close> and the rule's label and milestone rules (if
  present) resolve: when \<open>s\<close> matches an option of the project's Status field, the option
  is recorded under the list's ID in \<open>validStatusFields\<close>, whatever the \<open>create\<close> flag,
  and the list's ID is a key of the final map; when it matches none, \<open>create\<close> is true
  and \<open>s\<close> is a string, the pair of list ID and name is appended to
  \<open>statusFieldsToCreate\<close>, is in the final list, the plan fails and the report has the
  line for manual creation; when it matches none and \<open>create\<close> is false or \<open>s\<close> is a
  number, \<open>s\<close> is appended to \<open>missingStatusFields\<close>, is in the final list, the plan
  fails and the report has the line for missing status fields.
\<close>

theorem C7_status_rule:
  fixes start :: resolution and info :: project_info and trello :: board
    and ghl :: "gh_label list" and ghm :: "gh_milestone list"
  assumes rules: "map_lists m = before @ r # rest"
    and status: "m_status r = Some s"
    and nonzero: "truthy (Some s)"
  defines "after \<equiv> list_rule_step trello ghl ghm (Some info) r start"
    and "final \<equiv> fst (resolve trello m ghl ghm (Some info))"
  shows "(find_list trello (m_list r) = None \<longrightarrow>
            after = start\<lparr>invalidLists := invalidLists start @ [m_list r]\<rparr>
            \<and> m_list r \<in> set (invalidLists final)
            \<and> plan_fails final users
            \<and> InvalidListsError (invalidLists final) \<in> set (failure_report final users))
       \<and> (\<forall>l. find_list trello (m_list r) = Some l
              \<and> (\<forall>lab. m_label r = Some lab \<and> truthy (Some lab)
                    \<longrightarrow> find (label_matches lab) ghl \<noteq> None)
              \<and> (\<forall>ms. m_milestone r = Some ms \<and> truthy (Some ms)
                    \<longrightarrow> find (milestone_matches ms) ghm \<noteq> None) \<longrightarrow>
            (\<forall>f. find (status_matches s) (statusFieldOptions info) = Some f \<longrightarrow>
               map_of (validStatusFields after) (list_id l) = Some f
               \<and> missingStatusFields after = missingStatusFields start
               \<and> statusFieldsToCreate after = statusFieldsToCreate start
               \<and> list_id l \<in> fst ` set (validStatusFields final))
            \<and> (\<forall>name. find (status_matches s) (statusFieldOptions info) = None
                   \<and> m_create r \<and> s = RStr name \<longrightarrow>
                 statusFieldsToCreate after = statusFieldsToCreate start @ [(list_id l, name)]
                 \<and> missingStatusFields after = missingStatusFields start
                 \<and> validStatusFields after = validStatusFields start
                 \<and> (list_id l, name) \<in> set (statusFieldsToCreate final)
                 \<and> plan_fails final users
                 \<and> StatusFieldsToCreateWarning (statusFieldsToCreate final)
                      \<in> set (failure_report final users))
            \<and> (find (status_matches s) (statusFieldOptions info) = None
                   \<and> (\<not> m_create r \<or> isInteger s) \<longrightarrow>
                 missingStatusFields after = missingStatusFields start @ [s]
                 \<and> statusFieldsToCreate after = statusFieldsToCreate start
                 \<and> validStatusFields after = validStatusFields start
                 \<and> s \<in> set (missingStatusFields final)
                 \<and> plan_fails final users
                 \<and> MissingStatusFieldsError (missingStatusFields final)
                      \<in> set (failure_report final users)))"
proof -
  have unresolved: "after = start\<lparr>invalidLists := invalidLists start @ [m_list r]\<rparr>
            \<and> m_list r \<in> set (invalidLists final)
            \<and> plan_fails final users
            \<and> InvalidListsError (invalidLists final) \<in> set (failure_report final users)"
    if none: "find_list trello (m_list r) = None"
  proof -
    have step: "after = start\<lparr>invalidLists := invalidLists start @ [m_list r]\<rparr>"
      unfolding after_def by (rule step_invalid [OF none])
    have "m_list r \<in> set (invalidLists (list_rule_step trello ghl ghm (Some info) r st))" for st
      by (simp add: step_invalid [OF none])
    with resolve_invalid [OF rules] have inside: "m_list r \<in> set (invalidLists final)"
      unfolding final_def by blast
    then have "length (invalidLists final) > 0"
      by (cases "invalidLists final") simp_all
    then have "plan_fails final users
        \<and> InvalidListsError (invalidLists final) \<in> set (failure_report final users)"
      by (simp add: plan_fails_def failure_report_def)
    with step inside show ?thesis
      by blast
  qed
  have resolved: "(\<forall>f. find (status_matches s) (statusFieldOptions info) = Some f \<longrightarrow>
               map_of (validStatusFields after) (list_id l) = Some f
               \<and> missingStatusFields after = missingStatusFields start
               \<and> statusFieldsToCreate after = statusFieldsToCreate start
               \<and> list_id l \<in> fst ` set (validStatusFields final))
            \<and> (\<forall>name. find (status_matches s) (statusFieldOptions info) = None
                   \<and> m_create r \<and> s = RStr name \<longrightarrow>
                 statusFieldsToCreate after = statusFieldsToCreate start @ [(list_id l, name)]
                 \<and> missingStatusFields after = missingStatusFields start
                 \<and> validStatusFields after = validStatusFields start
                 \<and> (list_id l, name) \<in> set (statusFieldsToCreate final)
                 \<and> plan_fails final users
                 \<and> StatusFieldsToCreateWarning (statusFieldsToCreate final)
                      \<in> set (failure_report final users))
            \<and> (find (status_matches s) (statusFieldOptions info) = None
                   \<and> (\<not> m_create r \<or> isInteger s) \<longrightarrow>
                 missingStatusFields after = missingStatusFields start @ [s]
                 \<and> statusFieldsToCreate after = statusFieldsToCreate start
                 \<and> validStatusFields after = validStatusFields start
                 \<and> s \<in> set (missingStatusFields final)
                 \<and> plan_fails final users
                 \<and> MissingStatusFieldsError (missingStatusFields final)
                      \<in> set (failure_report final users))"
    if list: "find_list trello (m_list r) = Some l"
      and label: "\<forall>lab. m_label r = Some lab \<and> truthy (Some lab) \<longrightarrow> find (label_matches lab) ghl \<noteq> None"
      and milestone: "\<forall>ms. m_milestone r = Some ms \<and> truthy (Some ms)
                    \<longrightarrow> find (milestone_matches ms) ghm \<noteq> None" for l
    unfolding after_def final_def
    by (rule status_rule_on_resolved_list [OF rules list label milestone status nonzero])
  from unresolved resolved show ?thesis
    by blast
qed

theorem C7_status_rule_witness:
  "map_of (validStatusFields
        (list_rule_step ex_board [ex_bug] [ex_v1] (Some ex_info) c7_hit_rule initial_resolution))
      (list_id ex_todo) = Some ex_opt_done
   \<and> (list_id ex_todo, ''Review'')
        \<in> set (statusFieldsToCreate (fst (resolve ex_board
              (ex_map\<lparr>map_project := Some 3, map_lists := [c7_pending_rule]\<rparr>)
              [ex_bug] [ex_v1] (Some ex_info))))
   \<and> RInt 5
        \<in> set (missingStatusFields (fst (resolve ex_board
              (ex_map\<lparr>map_project := Some 3, map_lists := [c7_numeric_rule]\<rparr>)
              [ex_bug] [ex_v1] (Some ex_info))))
   \<and> ''Nowhere'' \<in> set (invalidLists (fst (resolve ex_board c7_map [ex_bug] [ex_v1] (Some ex_info))))"
proof -
  have list: "find_list ex_board (m_list r) = Some ex_todo"
    if "r \<in> {c7_hit_rule, c7_pending_rule, c7_numeric_rule}" for r
    using that by (auto simp: c7_hit_rule_def c7_pending_rule_def c7_numeric_rule_def ex_rule_def
        find_list_def ex_board_def ex_todo_def)
  have label: "\<forall>lab. m_label r = Some lab \<and> truthy (Some lab) \<longrightarrow> find (label_matches lab) [ex_bug] \<noteq> None"
    if "r \<in> {c7_hit_rule, c7_pending_rule, c7_numeric_rule}" for r
    using that by (auto simp: c7_hit_rule_def c7_pending_rule_def c7_numeric_rule_def ex_rule_def)
  have milestone:
    "\<forall>ms. m_milestone r = Some ms \<and> truthy (Some ms) \<longrightarrow> find (milestone_matches ms) [ex_v1] \<noteq> None"
    if "r \<in> {c7_hit_rule, c7_pending_rule, c7_numeric_rule}" for r
    using that by (auto simp: c7_hit_rule_def c7_pending_rule_def c7_numeric_rule_def ex_rule_def)
  have rules: "map_lists (ex_map\<lparr>map_project := Some 3, map_lists := [r]\<rparr>) = [] @ r # []" for r
    by simp
  have found: "find (status_matches (RStr ''Done'')) (statusFieldOptions ex_info) = Some ex_opt_done"
    by code_simp
  have no_review: "find (status_matches (RStr ''Review'')) (statusFieldOptions ex_info) = None"
    by code_simp
  have no_five: "find (status_matches (RInt 5)) (statusFieldOptions ex_info) = None"
    by code_simp
  have s_hit: "m_status c7_hit_rule = Some (RStr ''Done'')"
    by (simp add: c7_hit_rule_def ex_rule_def)
  have s_pending: "m_status c7_pending_rule = Some (RStr ''Review'')"
    and create: "m_create c7_pending_rule"
    by (simp_all add: c7_pending_rule_def ex_rule_def)
  have s_numeric: "m_status c7_numeric_rule = Some (RInt 5)"
    by (simp add: c7_numeric_rule_def ex_rule_def)
  have hit: "map_of (validStatusFields
        (list_rule_step ex_board [ex_bug] [ex_v1] (Some ex_info) c7_hit_rule initial_resolution))
      (list_id ex_todo) = Some ex_opt_done"
    using C7_status_rule [OF rules s_hit, where trello = ex_board and ghl = "[ex_bug]"
        and ghm = "[ex_v1]" and info = ex_info and start = initial_resolution]
      list [of c7_hit_rule] label [of c7_hit_rule] milestone [of c7_hit_rule] found
    by simp
  have pending: "(list_id ex_todo, ''Review'')
        \<in> set (statusFieldsToCreate (fst (resolve ex_board
              (ex_map\<lparr>map_project := Some 3, map_lists := [c7_pending_rule]\<rparr>)
              [ex_bug] [ex_v1] (Some ex_info))))"
    using C7_status_rule [OF rules s_pending, where trello = ex_board and ghl = "[ex_bug]"
        and ghm = "[ex_v1]" and info = ex_info]
      list [of c7_pending_rule] label [of c7_pending_rule] milestone [of c7_pending_rule]
      no_review create
    by simp
  have numeric: "RInt 5
        \<in> set (missingStatusFields (fst (resolve ex_board
              (ex_map\<lparr>map_project := Some 3, map_lists := [c7_numeric_rule]\<rparr>)
              [ex_bug] [ex_v1] (Some ex_info))))"
    using C7_status_rule [OF rules s_numeric, where trello = ex_board and ghl = "[ex_bug]"
        and ghm = "[ex_v1]" and info = ex_info]
      list [of c7_numeric_rule] label [of c7_numeric_rule] milestone [of c7_numeric_rule] no_five
    by simp
  have r7: "map_lists c7_map
      = [] @ ex_rule\<lparr>m_list := ''Nowhere'', m_status := Some (RStr ''Done'')\<rparr> # []"
    by (simp add: c7_map_def)
  have nowhere: "find_list ex_board ''Nowhere'' = None"
    by code_simp
  have unresolved: "''Nowhere''
      \<in> set (invalidLists (fst (resolve ex_board c7_map [ex_bug] [ex_v1] (Some ex_info))))"
    using C7_status_rule [OF r7, where s = "RStr ''Done''" and trello = ex_board
        and ghl = "[ex_bug]" and ghm = "[ex_v1]" and info = ex_info] nowhere
    by simp
  from hit pending numeric unresolved show ?thesis
    by simp
qed

text \<open>
  Claim C7 as stated fails for a rule whose list the board does not have: its status
  reference matches the option Done, and nothing is recorded for it in
  \<open>validStatusFields\<close> (nor in the two lists of misses); the rule ends in \<open>invalidLists\<close>.
\<close>

theorem C7_counterexample:
  "map m_status (map_lists c7_map) = [Some (RStr ''Done'')]
   \<and> find_list ex_board ''Nowhere'' = None
   \<and> find (status_matches (RStr ''Done'')) (statusFieldOptions ex_info) = Some ex_opt_done
   \<and> validStatusFields (fst (resolve ex_board c7_map [ex_bug] [ex_v1] (Some ex_info))) = []
   \<and> missingStatusFields (fst (resolve ex_board c7_map [ex_bug] [ex_v1] (Some ex_info))) = []
   \<and> statusFieldsToCreate (fst (resolve ex_board c7_map [ex_bug] [ex_v1] (Some ex_info))) = []
   \<and> invalidLists (fst (resolve ex_board c7_map [ex_bug] [ex_v1] (Some ex_info))) = [''Nowhere'']"
proof -
  have cfg: "map m_status (map_lists c7_map) = [Some (RStr ''Done'')]"
    by code_simp
  have nowhere: "find_list ex_board ''Nowhere'' = None"
    by code_simp
  have found: "find (status_matches (RStr ''Done'')) (statusFieldOptions ex_info) = Some ex_opt_done"
    by code_simp
  have v: "validStatusFields (fst (resolve ex_board c7_map [ex_bug] [ex_v1] (Some ex_info))) = []"
    by code_simp
  have ms: "missingStatusFields (fst (resolve ex_board c7_map [ex_bug] [ex_v1] (Some ex_info))) = []"
    by code_simp
  have tc: "statusFieldsToCreate (fst (resolve ex_board c7_map [ex_bug] [ex_v1] (Some ex_info))) = []"
    by code_simp
  have inv: "invalidLists (fst (resolve ex_board c7_map [ex_bug] [ex_v1] (Some ex_info)))
      = [''Nowhere'']"
    by code_simp
  from cfg nowhere found v ms tc inv show ?thesis
    by simp
qed

subsection \<open>Status synchronisation\<close>


































end
